theory Spec2Isabelle
  imports Main "HOL-Library.AList"
begin

section \<open>Python values\<close>

text \<open>
  The program is \<^verbatim>\<open>model.py\<close>: \<^verbatim>\<open>MunicipalIssueDetector.analyze_image\<close> sends an
  image to a language model and turns the text of the reply into a result, and
  \<^verbatim>\<open>detect_municipal_issue\<close> wraps it. A Python \<^verbatim>\<open>str\<close> is a sequence of code points,
  and \<^verbatim>\<open>len\<close>, slicing, \<^verbatim>\<open>in\<close>, \<^verbatim>\<open>strip\<close> and \<^verbatim>\<open>lower\<close> all count code points, so a
  \<^verbatim>\<open>str\<close> is modelled as a list of code points. \<open>py\<close> reads a literal of the source.
\<close>

type_synonym codepoint = nat

type_synonym pystr = "codepoint list"

definition py :: "string \<Rightarrow> pystr" where
  "py s = map of_char s"

text \<open>
  The values \<^verbatim>\<open>json.loads\<close> can return, which are also the values the analysis
  returns (a \<^verbatim>\<open>str\<close> or a \<^verbatim>\<open>dict\<close>). A \<^verbatim>\<open>dict\<close> keeps its keys in insertion order and
  its keys here are always \<^verbatim>\<open>str\<close>: it is an association list, read with \<open>map_of\<close> and
  written with \<open>AList.update\<close> (which replaces the value of a key in place and appends
  a new key at the end, as assignment to \<^verbatim>\<open>d[k]\<close> does). The program never computes with
  a \<^verbatim>\<open>float\<close>; one is carried as its decimal literal.
\<close>

datatype pyval =
    PNone
  | PBool bool
  | PInt int
  | PFloat pystr
  | PStr pystr
  | PList "pyval list"
  | PDict "(pystr \<times> pyval) list"

text \<open>
  Exceptions, all of them instances of \<^verbatim>\<open>Exception\<close>: the class, as far as the program
  tells classes apart, and the text \<^verbatim>\<open>str(e)\<close>. Asynchronous signals that are not
  \<^verbatim>\<open>Exception\<close>s (\<^verbatim>\<open>KeyboardInterrupt\<close>, \<^verbatim>\<open>SystemExit\<close>) are not errors of the call chain
  and are not modelled.
\<close>

datatype exc_class = JSONDecodeError | NameError | TypeError | KeyError | ValueError | OtherException

datatype py_exception = Raised exc_class pystr

fun exc_class_of :: "py_exception \<Rightarrow> exc_class" where
  "exc_class_of (Raised c m) = c"

fun str_exc :: "py_exception \<Rightarrow> pystr" where
  "str_exc (Raised c m) = m"

text \<open>Sequencing of statements that may raise: the first exception ends the block.\<close>

definition bind_exc :: "'e + 'a \<Rightarrow> ('a \<Rightarrow> 'e + 'b) \<Rightarrow> 'e + 'b" where
  "bind_exc m f = (case m of Inl e \<Rightarrow> Inl e | Inr x \<Rightarrow> f x)"

section \<open>String operations\<close>

text \<open>\<^verbatim>\<open>needle in haystack\<close> on two strings: a contiguous occurrence.\<close>

fun startswith :: "pystr \<Rightarrow> pystr \<Rightarrow> bool" where
  "startswith s [] = True"
| "startswith [] (p # ps) = False"
| "startswith (c # cs) (p # ps) = (c = p \<and> startswith cs ps)"

definition endswith :: "pystr \<Rightarrow> pystr \<Rightarrow> bool" where
  "endswith s p = startswith (rev s) (rev p)"

fun str_contains :: "pystr \<Rightarrow> pystr \<Rightarrow> bool" where
  "str_contains needle [] = (needle = [])"
| "str_contains needle (c # cs) = (startswith (c # cs) needle \<or> str_contains needle cs)"

text \<open>
  \<^verbatim>\<open>str.strip()\<close> removes the white space of Unicode at both ends: the code points
  for which \<^verbatim>\<open>str.isspace\<close> holds.
\<close>

definition isspace :: "codepoint \<Rightarrow> bool" where
  "isspace c = ((9 \<le> c \<and> c \<le> 13) \<or> (28 \<le> c \<and> c \<le> 32) \<or> c = 133 \<or> c = 160 \<or> c = 5760
     \<or> (8192 \<le> c \<and> c \<le> 8202) \<or> c = 8232 \<or> c = 8233 \<or> c = 8239 \<or> c = 8287 \<or> c = 12288)"

definition strip :: "pystr \<Rightarrow> pystr" where
  "strip s = rev (dropWhile isspace (rev (dropWhile isspace s)))"

text \<open>
  \<^verbatim>\<open>str.lower()\<close>. The table is exact below U+0100. From U+0100 on only the two code
  points whose lower case holds an ASCII letter are mapped (U+0130 and the Kelvin sign
  U+212A); every other one is left as it is, where Python may give another code point
  that is not ASCII either. The program only searches the lower-cased text for ASCII
  phrases, which no such code point can be part of.
\<close>

definition lower_cp :: "codepoint \<Rightarrow> pystr" where
  "lower_cp c =
     (if 65 \<le> c \<and> c \<le> 90 then [c + 32]
      else if 192 \<le> c \<and> c \<le> 222 \<and> c \<noteq> 215 then [c + 32]
      else if c = 304 then [105, 775]
      else if c = 8490 then [107]
      else [c])"

definition lower :: "pystr \<Rightarrow> pystr" where
  "lower s = concat (map lower_cp s)"

definition quote :: "string \<Rightarrow> string" where
  "quote s = CHR 0x27 # s @ [CHR 0x27]"

section \<open>Operations on values\<close>

fun type_name :: "pyval \<Rightarrow> string" where
  "type_name PNone = ''NoneType''"
| "type_name (PBool b) = ''bool''"
| "type_name (PInt i) = ''int''"
| "type_name (PFloat f) = ''float''"
| "type_name (PStr s) = ''str''"
| "type_name (PList xs) = ''list''"
| "type_name (PDict d) = ''dict''"

text \<open>
  \<^verbatim>\<open>field in result\<close> for a \<^verbatim>\<open>str\<close> \<open>field\<close>: a key of a \<^verbatim>\<open>dict\<close>, an element of a \<^verbatim>\<open>list\<close>
  (compared with \<^verbatim>\<open>==\<close>, which holds of a \<^verbatim>\<open>str\<close> and another value only when that is
  the same \<^verbatim>\<open>str\<close>), a substring of a \<^verbatim>\<open>str\<close>; a \<^verbatim>\<open>TypeError\<close> on the values that are no
  containers.
\<close>

fun str_in :: "pystr \<Rightarrow> pyval \<Rightarrow> py_exception + bool" where
  "str_in k (PDict d) = Inr (map_of d k \<noteq> None)"
| "str_in k (PList xs) = Inr (PStr k \<in> set xs)"
| "str_in k (PStr s) = Inr (str_contains k s)"
| "str_in k v = Inl (Raised TypeError
     (py (''argument of type '' @ quote (type_name v) @ '' is not iterable'')))"

text \<open>
  \<^verbatim>\<open>result[key] = v\<close> and \<^verbatim>\<open>result[key]\<close> for a \<^verbatim>\<open>str\<close> key. The texts of the
  exceptions are those of CPython 3.12; the text of a \<^verbatim>\<open>KeyError\<close> is the key between
  quotes, which is its \<^verbatim>\<open>repr\<close> for the keys the program reads.
\<close>

fun setitem :: "pyval \<Rightarrow> pystr \<Rightarrow> pyval \<Rightarrow> py_exception + pyval" where
  "setitem (PDict d) k v = Inr (PDict (AList.update k v d))"
| "setitem (PList xs) k v = Inl (Raised TypeError
     (py ''list indices must be integers or slices, not str''))"
| "setitem c k v = Inl (Raised TypeError
     (py (quote (type_name c) @ '' object does not support item assignment'')))"

fun getitem :: "pyval \<Rightarrow> pystr \<Rightarrow> py_exception + pyval" where
  "getitem (PDict d) k =
     (case map_of d k of
        None \<Rightarrow> Inl (Raised KeyError (py [CHR 0x27] @ k @ py [CHR 0x27]))
      | Some v \<Rightarrow> Inr v)"
| "getitem (PList xs) k = Inl (Raised TypeError
     (py ''list indices must be integers or slices, not str''))"
| "getitem (PStr s) k = Inl (Raised TypeError
     (py (''string indices must be integers, not '' @ quote ''str'')))"
| "getitem c k = Inl (Raised TypeError
     (py (quote (type_name c) @ '' object is not subscriptable'')))"

section \<open>Names\<close>

text \<open>
  The names bound at the top level of \<^verbatim>\<open>model.py\<close>: its imports, \<^verbatim>\<open>logger\<close>,
  \<^verbatim>\<open>env_path\<close>, the class and the function. A name a function uses is looked up among
  its local names, then here (none of the names looked up below is a built-in); a name
  bound in neither raises \<^verbatim>\<open>NameError\<close>.
\<close>

definition module_globals :: "string list" where
  "module_globals =
     [''genai'', ''json'', ''base64'', ''Image'', ''io'', ''os'', ''load_dotenv'', ''Path'',
      ''requests'', ''Dict'', ''Any'', ''Union'', ''logging'', ''logger'', ''env_path'',
      ''MunicipalIssueDetector'', ''detect_municipal_issue'']"

definition resolve :: "string list \<Rightarrow> string \<Rightarrow> py_exception + unit" where
  "resolve locals name =
     (if name \<in> set locals \<or> name \<in> set module_globals then Inr ()
      else Inl (Raised NameError (py (''name '' @ quote name @ '' is not defined''))))"

text \<open>
  \<^verbatim>\<open>datetime.now().isoformat()\<close>, evaluated where the names \<open>locals\<close> are bound; \<open>now\<close>
  is the reading of the clock at the call, in ISO format.
\<close>

definition datetime_now_isoformat :: "string list \<Rightarrow> pystr \<Rightarrow> py_exception + pystr" where
  "datetime_now_isoformat locals now = bind_exc (resolve locals ''datetime'') (\<lambda>_. Inr now)"

section \<open>The detector's tables\<close>

definition departments :: "(pystr \<times> pystr list) list" where
  "departments =
     [(py ''FIRE'', map py [''fire'', ''smoke'', ''burning'', ''flames'', ''emergency'', ''rescue'',
         ''explosion'', ''blaze'', ''scorch'', ''alarm'', ''firefighter'']),
      (py ''WATER'', map py [''water'', ''flooding'', ''leak'', ''pipe'', ''drainage'', ''sewer'',
         ''overflow'', ''wet road'', ''sewage'', ''contaminated water'', ''broken pipe'', ''manhole'']),
      (py ''ELECTRIC'', map py [''electric'', ''power'', ''cable'', ''wire'', ''pole'', ''outage'',
         ''transformer'', ''short circuit'', ''live wire'', ''street light'', ''spark'']),
      (py ''ROADS'', map py [''road'', ''pothole'', ''pavement'', ''street'', ''traffic'', ''sign'',
         ''marking'', ''speed breaker'', ''signal'', ''barrier'', ''crack'', ''manhole cover'']),
      (py ''WASTE'', map py [''garbage'', ''trash'', ''waste'', ''dumpster'', ''litter'', ''recycling'',
         ''overflowing bin'', ''illegal dumping'', ''dead animal'', ''open garbage'']),
      (py ''PARKS'', map py [''park'', ''tree'', ''garden'', ''playground'', ''bench'', ''maintenance'',
         ''broken swing'', ''fallen tree'', ''damaged slide'', ''open well'']),
      (py ''BUILDING'', map py [''building'', ''construction'', ''structure'', ''violation'', ''permit'',
         ''broken wall'', ''collapsed'', ''unsafe building'', ''crack'', ''illegal work'']),
      (py ''HEALTH'', map py [''health'', ''sanitation'', ''pest'', ''contamination'', ''safety'',
         ''mosquito'', ''dirty toilet'', ''open defecation'', ''septic tank'', ''infection'']),
      (py ''TRANSPORT'', map py [''bus stop'', ''shelter damage'', ''vehicle damage'', ''rail track'',
         ''sign board'', ''auto stand'', ''transport board'', ''public bus'']),
      (py ''TRAFFIC'', map py [''congestion'', ''signal not working'', ''road block'',
         ''illegal parking'', ''no entry'', ''wrong side'', ''accident'']),
      (py ''EDUCATION'', map py [''school'', ''playground'', ''broken desk'', ''unsafe building'',
         ''dirty classroom'', ''toilet school'', ''open wiring'']),
      (py ''CIVIC INFRASTRUCTURE'', map py [''open manhole'', ''unfinished construction'',
         ''broken tap'', ''non-functional toilet'', ''public facility broken'', ''leaking roof'']),
      (py ''COMMUNICATION'', map py [''telecom pole'', ''fiber wire'', ''damaged antenna'',
         ''communication wire'', ''internet cable'', ''broken signal tower'']),
      (py ''DISASTER RELIEF'', map py [''earthquake'', ''collapsed building'', ''flood'',
         ''waterlogging'', ''relief camp'', ''emergency shelter'', ''rescue operation''])]"

definition priority_levels :: "(pystr \<times> pystr) list" where
  "priority_levels =
     [(py ''CRITICAL'', py ''Immediate attention required - public safety risk''),
      (py ''HIGH'', py ''Urgent - should be addressed within 24 hours''),
      (py ''MEDIUM'', py ''Important - should be addressed within 1 week''),
      (py ''LOW'', py ''Minor issue - can be scheduled for routine maintenance'')]"

section \<open>Validation and the fallback record\<close>

definition required_fields :: "pystr list" where
  "required_fields = [py ''department'', py ''priority'', py ''description'']"

definition valid_departments :: "pystr list" where
  "valid_departments = map fst departments"

definition valid_priorities :: "pystr list" where
  "valid_priorities = map fst priority_levels"

text \<open>The loop over \<^verbatim>\<open>required_fields\<close>: a field that is not in \<open>result\<close> is set.\<close>

fun ensure_fields :: "pystr list \<Rightarrow> pyval \<Rightarrow> py_exception + pyval" where
  "ensure_fields [] result = Inr result"
| "ensure_fields (field # fields) result =
     bind_exc (str_in field result) (\<lambda>present.
       if \<not> present
       then bind_exc (setitem result field (PStr (py ''UNKNOWN''))) (ensure_fields fields)
       else ensure_fields fields result)"

text \<open>
  \<^verbatim>\<open>_validate_and_enhance_result\<close>. \<open>result\<close> is whatever \<^verbatim>\<open>json.loads\<close> returned; the
  function changes it in place and returns it. Its local import binds \<^verbatim>\<open>datetime\<close>
  before the time is read.
\<close>

definition validate_and_enhance_result :: "pystr \<Rightarrow> pyval \<Rightarrow> py_exception + pyval" where
  "validate_and_enhance_result now result0 =
     bind_exc (ensure_fields required_fields result0) (\<lambda>result.
     bind_exc (getitem result (py ''department'')) (\<lambda>department.
     bind_exc (if department \<notin> PStr ` set valid_departments
               then setitem result (py ''department'') (PStr (py ''BUILDING''))
               else Inr result) (\<lambda>result.
     bind_exc (getitem result (py ''priority'')) (\<lambda>priority.
     bind_exc (if priority \<notin> PStr ` set valid_priorities
               then setitem result (py ''priority'') (PStr (py ''MEDIUM''))
               else Inr result) (\<lambda>result.
     bind_exc (datetime_now_isoformat
                 [''self'', ''result'', ''required_fields'', ''field'', ''valid_departments'',
                  ''valid_priorities'', ''datetime''] now) (\<lambda>timestamp.
     bind_exc (setitem result (py ''timestamp'') (PStr timestamp)) (\<lambda>result.
     bind_exc (setitem result (py ''status'') (PStr (py ''PENDING''))) (\<lambda>result.
     Inr result))))))))"

text \<open>
  \<^verbatim>\<open>_create_fallback_response\<close>. The values of the \<^verbatim>\<open>dict\<close> display are evaluated in
  order; the function has no import of its own, so its only local names are its
  parameters.
\<close>

definition create_fallback_response :: "pystr \<Rightarrow> pystr \<Rightarrow> py_exception + pyval" where
  "create_fallback_response now raw_response =
     (let description = (if length raw_response > 200 then take 200 raw_response @ py ''...''
                         else raw_response)
      in bind_exc (datetime_now_isoformat [''self'', ''raw_response''] now) (\<lambda>timestamp.
         Inr (PDict
           [(py ''department'', PStr (py ''BUILDING'')),
            (py ''priority'', PStr (py ''MEDIUM'')),
            (py ''description'', PStr description),
            (py ''location_details'', PStr (py ''Not specified'')),
            (py ''recommended_action'', PStr (py ''Manual review required'')),
            (py ''safety_concern'', PStr (py ''Unknown'')),
            (py ''confidence_score'', PFloat (py ''0.5'')),
            (py ''timestamp'', PStr timestamp),
            (py ''status'', PStr (py ''PENDING'')),
            (py ''note'', PStr (py ''Fallback response - manual review recommended''))])))"

section \<open>Normalising the reply\<close>

definition non_civic_message :: pystr where
  "non_civic_message = py (''No Municipal Issue Detected - This appears to be a non-civic matter. ''
     @ ''Please upload images of infrastructure problems, public safety concerns, ''
     @ ''or municipal service issues.'')"

definition negative_keywords :: "pystr list" where
  "negative_keywords =
     map py [''no municipal'', ''no civic'', ''not a municipal'', ''personal item'', ''non-civic'']"

text \<open>
  The two statements that remove a Markdown fence: the seven code points of the opening
  fence of a JSON block at the start, the three of a closing fence at the end.
\<close>

definition strip_fences :: "pystr \<Rightarrow> pystr" where
  "strip_fences response_text0 =
     (let response_text = (if startswith response_text0 (py ''```json'')
                           then drop 7 response_text0 else response_text0)
      in if endswith response_text (py ''```'')
         then take (length response_text - 3) response_text
         else response_text)"

text \<open>
  The body of the inner \<^verbatim>\<open>try\<close> of \<^verbatim>\<open>analyze_image\<close>, on the text \<open>text\<close> of the reply.
  \<open>loads\<close> is \<^verbatim>\<open>json.loads\<close>, a function of the library: the program is modelled for any
  decoder, and a reference decoder is given below.
\<close>

definition parse_response ::
  "(pystr \<Rightarrow> py_exception + pyval) \<Rightarrow> pystr \<Rightarrow> pystr \<Rightarrow> py_exception + pyval" where
  "parse_response loads now text =
     (let response_text = strip text in
      if response_text = py ''NON_CIVIC_ISSUE'' \<or> str_contains (py ''NON_CIVIC_ISSUE'') response_text
      then Inr (PStr non_civic_message)
      else bind_exc (loads (strip_fences response_text)) (validate_and_enhance_result now))"

text \<open>The handler \<^verbatim>\<open>except json.JSONDecodeError\<close>, which reads the text of the reply again.\<close>

definition on_decode_error :: "pystr \<Rightarrow> pystr \<Rightarrow> py_exception + pyval" where
  "on_decode_error now text =
     (if \<exists>keyword \<in> set negative_keywords. str_contains keyword (lower text)
      then Inr (PStr non_civic_message)
      else create_fallback_response now text)"

text \<open>
  The inner \<^verbatim>\<open>try\<close> statement as a whole: the spec's \<^verbatim>\<open>normalize\<close>. \<open>Inl e\<close> is an
  exception that leaves the statement.
\<close>

definition normalize_response ::
  "(pystr \<Rightarrow> py_exception + pyval) \<Rightarrow> pystr \<Rightarrow> pystr \<Rightarrow> py_exception + pyval" where
  "normalize_response loads now text =
     (case parse_response loads now text of
        Inr result \<Rightarrow> Inr result
      | Inl e \<Rightarrow> if exc_class_of e = JSONDecodeError then on_decode_error now text else Inl e)"

section \<open>The call chain\<close>

text \<open>
  What the program calls outside itself is a parameter of the model: the environment
  variable, the model service, the HTTP client, the image library, the decoder and
  the clock. An image is its mode and its content. The reply of the model service is
  modelled by what reading its attribute \<^verbatim>\<open>text\<close> gives, which may raise.
\<close>

record image =
  mode :: pystr
  pixels :: "nat list"

record http_response =
  status_code :: nat
  content :: "nat list"

record env =
  getenv :: "pystr \<Rightarrow> pystr option"
  configure :: "pystr \<Rightarrow> py_exception + unit"
  requests_get :: "pystr \<Rightarrow> py_exception + http_response"
  raise_for_status :: "http_response \<Rightarrow> py_exception + unit"
  image_open_bytes :: "nat list \<Rightarrow> py_exception + image"
  image_open_path :: "pystr \<Rightarrow> py_exception + image"
  convert_rgb :: "image \<Rightarrow> py_exception + image"
  generate_content :: "image \<Rightarrow> py_exception + (py_exception + pystr)"
  decoder :: "pystr \<Rightarrow> py_exception + pyval"
  clock :: pystr

text \<open>
  The calls that reach outside the program (the configuration of the client, an HTTP
  request, a file that is opened, a request to the model service) are recorded, in
  order: a computation gives its outcome and the calls it made. Logging is left out.
\<close>

datatype event = Configure pystr | HttpGet pystr | OpenFile pystr | Generate

type_synonym 'a io = "(py_exception + 'a) \<times> event list"

definition io_return :: "'a \<Rightarrow> 'a io" where
  "io_return v = (Inr v, [])"

definition io_lift :: "py_exception + 'a \<Rightarrow> 'a io" where
  "io_lift r = (r, [])"

definition io_call :: "event \<Rightarrow> py_exception + 'a \<Rightarrow> 'a io" where
  "io_call ev r = (r, [ev])"

definition io_bind :: "'a io \<Rightarrow> ('a \<Rightarrow> 'b io) \<Rightarrow> 'b io" where
  "io_bind m f =
     (case m of
        (Inl e, evs) \<Rightarrow> (Inl e, evs)
      | (Inr v, evs) \<Rightarrow> (case f v of (r, evs') \<Rightarrow> (r, evs @ evs')))"

text \<open>\<^verbatim>\<open>try: body except Exception as e: handler\<close>; every modelled exception is caught.\<close>

definition io_try :: "'a io \<Rightarrow> (py_exception \<Rightarrow> 'a io) \<Rightarrow> 'a io" where
  "io_try body handler =
     (case body of
        (Inl e, evs) \<Rightarrow> (case handler e of (r, evs') \<Rightarrow> (r, evs @ evs'))
      | (Inr v, evs) \<Rightarrow> (Inr v, evs))"

text \<open>\<^verbatim>\<open>load_image_from_url\<close>: its handler logs the exception and raises it again.\<close>

definition load_image_from_url :: "env \<Rightarrow> pystr \<Rightarrow> image io" where
  "load_image_from_url env image_url =
     io_try
       (io_bind (io_call (HttpGet image_url) (requests_get env image_url)) (\<lambda>response.
        io_bind (io_lift (raise_for_status env response)) (\<lambda>_.
        io_lift (image_open_bytes env (content response)))))
       (\<lambda>e. io_lift (Inl e))"

text \<open>
  The argument of \<^verbatim>\<open>analyze_image\<close>: a \<^verbatim>\<open>str\<close>, an image, or a value that is neither.
\<close>

datatype source = Str pystr | Bitmap image | Unsupported

text \<open>
  \<^verbatim>\<open>analyze_image\<close>. The prompt is a constant of the source and is part of
  \<open>generate_content\<close>. When reading the text of the reply raises, the exception leaves
  the inner \<^verbatim>\<open>try\<close>: its handler for \<^verbatim>\<open>JSONDecodeError\<close> reads the text again first.
\<close>

definition analyze_image :: "env \<Rightarrow> source \<Rightarrow> pyval io" where
  "analyze_image env image_source =
     io_try
       (io_bind
          (case image_source of
             Str s \<Rightarrow>
               if startswith s (py ''http://'') \<or> startswith s (py ''https://'')
               then load_image_from_url env s
               else io_call (OpenFile s) (image_open_path env s)
           | Bitmap img \<Rightarrow> io_return img
           | Unsupported \<Rightarrow> io_lift (Inl (Raised ValueError
               (py ''image_source must be a file path, URL, or PIL Image'')))) (\<lambda>image.
        io_bind (if mode image \<noteq> py ''RGB'' then io_lift (convert_rgb env image)
                 else io_return image) (\<lambda>image.
        io_bind (io_call Generate (generate_content env image)) (\<lambda>response.
        io_lift (bind_exc response (normalize_response (decoder env) (clock env)))))))
       (\<lambda>e. io_return (PStr (py ''Error: Unable to analyze image - '' @ str_exc e)))"

text \<open>
  \<^verbatim>\<open>detect_municipal_issue\<close>. \<^verbatim>\<open>not API_KEY\<close> holds of \<^verbatim>\<open>None\<close> and of the empty string.
  Building the detector configures the client of the model service.
\<close>

definition detect_municipal_issue :: "env \<Rightarrow> source \<Rightarrow> pyval io" where
  "detect_municipal_issue env image_url =
     io_try
       (case getenv env (py ''GOOGLE_GEMINI_API_KEY'') of
          None \<Rightarrow> io_return (PStr (py ''Error: Google Gemini API key not found.''))
        | Some API_KEY \<Rightarrow>
            if API_KEY = []
            then io_return (PStr (py ''Error: Google Gemini API key not found.''))
            else io_bind (io_call (Configure API_KEY) (configure env API_KEY)) (\<lambda>_.
                 analyze_image env image_url))
       (\<lambda>e. io_return (PDict
          [(py ''error'', PStr (str_exc e)),
           (py ''message'', PStr (py
              ''Failed to analyze the image. Please check the URL or server logs.''))]))"

text \<open>The result with its time stamp removed, to compare two results.\<close>

fun drop_timestamp :: "pyval \<Rightarrow> pyval" where
  "drop_timestamp (PDict d) = PDict (AList.delete (py ''timestamp'') d)"
| "drop_timestamp v = v"

section \<open>A reference decoder\<close>

text \<open>
  \<^verbatim>\<open>json.loads\<close> on a \<^verbatim>\<open>str\<close>, as CPython's decoder reads a text: white space
  (space, tab, line feed, carriage return) between tokens, strings in strict mode,
  numbers as \<^verbatim>\<open>int\<close> or \<^verbatim>\<open>float\<close>, the constants \<^verbatim>\<open>NaN\<close>, \<^verbatim>\<open>Infinity\<close> and \<^verbatim>\<open>-Infinity\<close>,
  the last of two equal keys of an object, and nothing after the value. The text is
  cut into tokens, and the tokens are read by a machine with a stack of the open
  arrays and objects. The limits of the interpreter (recursion depth, digits of an
  \<^verbatim>\<open>int\<close>) are not part of it. The text of a \<^verbatim>\<open>JSONDecodeError\<close> is only logged by the
  program, and the reference decoder gives the same one everywhere.
\<close>

datatype token = LBrace | RBrace | LBracket | RBracket | Colon | Comma | Atom pyval

definition is_digit :: "codepoint \<Rightarrow> bool" where
  "is_digit c = (48 \<le> c \<and> c \<le> 57)"

definition hex_digit :: "codepoint \<Rightarrow> nat option" where
  "hex_digit c =
     (if 48 \<le> c \<and> c \<le> 57 then Some (c - 48)
      else if 97 \<le> c \<and> c \<le> 102 then Some (c - 87)
      else if 65 \<le> c \<and> c \<le> 70 then Some (c - 55)
      else None)"

definition hex4 :: "codepoint \<Rightarrow> codepoint \<Rightarrow> codepoint \<Rightarrow> codepoint \<Rightarrow> nat option" where
  "hex4 a b c d =
     (case (hex_digit a, hex_digit b, hex_digit c, hex_digit d) of
        (Some w, Some x, Some y, Some z) \<Rightarrow> Some (((w * 16 + x) * 16 + y) * 16 + z)
      | _ \<Rightarrow> None)"

text \<open>The character after a backslash, other than \<^verbatim>\<open>u\<close>.\<close>

definition unescape :: "codepoint \<Rightarrow> codepoint option" where
  "unescape e =
     (if e = 34 \<or> e = 92 \<or> e = 47 then Some e
      else if e = 98 then Some 8
      else if e = 102 then Some 12
      else if e = 110 then Some 10
      else if e = 114 then Some 13
      else if e = 116 then Some 9
      else None)"

definition emit :: "codepoint \<Rightarrow> nat \<Rightarrow> (pystr \<times> nat) option \<Rightarrow> (pystr \<times> nat) option" where
  "emit c n r = map_option (\<lambda>(s, k). (c # s, k + n)) r"

text \<open>
  The contents of a string, from after its opening quote: the decoded string and the
  number of code points read, the closing quote included.
\<close>

fun scan_string :: "pystr \<Rightarrow> (pystr \<times> nat) option" where
  "scan_string [] = None"
| "scan_string (c # cs) =
     (if c = 34 then Some ([], 1)
      else if c = 92 then
        (case cs of
           [] \<Rightarrow> None
         | e # es \<Rightarrow>
             if e = 117 then
               (case es of
                  h1 # h2 # h3 # h4 # rest \<Rightarrow>
                    (case hex4 h1 h2 h3 h4 of
                       None \<Rightarrow> None
                     | Some hi \<Rightarrow>
                         if 55296 \<le> hi \<and> hi \<le> 56319 then
                           (case rest of
                              b # u # l1 # l2 # l3 # l4 # rest2 \<Rightarrow>
                                if b = 92 \<and> u = 117 then
                                  (case hex4 l1 l2 l3 l4 of
                                     None \<Rightarrow> None
                                   | Some lo \<Rightarrow>
                                       if 56320 \<le> lo \<and> lo \<le> 57343
                                       then emit (65536 + (hi - 55296) * 1024 + (lo - 56320)) 12
                                              (scan_string rest2)
                                       else emit hi 6 (scan_string rest))
                                else emit hi 6 (scan_string rest)
                            | _ \<Rightarrow> emit hi 6 (scan_string rest))
                         else emit hi 6 (scan_string rest))
                | _ \<Rightarrow> None)
             else (case unescape e of
                     None \<Rightarrow> None
                   | Some d \<Rightarrow> emit d 2 (scan_string es)))
      else if c < 32 then None
      else emit c 1 (scan_string cs))"

definition decimal :: "pystr \<Rightarrow> nat" where
  "decimal ds = foldl (\<lambda>n d. 10 * n + (d - 48)) 0 ds"

text \<open>
  A number: an optional minus sign, \<^verbatim>\<open>0\<close> or a digit from 1 to 9 and more digits, a
  fraction if a digit follows the point, an exponent if a digit follows \<^verbatim>\<open>e\<close> and its
  sign. The value is an \<^verbatim>\<open>int\<close> when it has neither fraction nor exponent.
\<close>

definition scan_number :: "pystr \<Rightarrow> (pyval \<times> nat) option" where
  "scan_number s =
     (let sign = (if startswith s [45] then [45] else []);
          s1 = drop (length sign) s;
          digits = (case s1 of
                      [] \<Rightarrow> []
                    | d # ds \<Rightarrow> if d = 48 then [d]
                               else if 49 \<le> d \<and> d \<le> 57 then d # takeWhile is_digit ds
                               else [])
      in if digits = [] then None
         else
           let s2 = drop (length digits) s1;
               frac = (case s2 of
                         p # d # ds \<Rightarrow> if p = 46 \<and> is_digit d then p # d # takeWhile is_digit ds
                                       else []
                       | _ \<Rightarrow> []);
               s3 = drop (length frac) s2;
               expo = (case s3 of
                         [] \<Rightarrow> []
                       | e # es \<Rightarrow>
                           if e = 101 \<or> e = 69 then
                             (let sg = (case es of
                                          [] \<Rightarrow> []
                                        | g # gs \<Rightarrow> if g = 43 \<or> g = 45 then [g] else []);
                                  ds = takeWhile is_digit (drop (length sg) es)
                              in if ds = [] then [] else e # sg @ ds)
                           else []);
               lexeme = sign @ digits @ frac @ expo
           in Some (if frac = [] \<and> expo = []
                    then PInt (if sign = [] then int (decimal digits) else - int (decimal digits))
                    else PFloat lexeme,
                    length lexeme))"

definition scan_literal :: "pystr \<Rightarrow> (pyval \<times> nat) option" where
  "scan_literal s =
     (if startswith s (py ''null'') then Some (PNone, 4)
      else if startswith s (py ''true'') then Some (PBool True, 4)
      else if startswith s (py ''false'') then Some (PBool False, 5)
      else case scan_number s of
             Some r \<Rightarrow> Some r
           | None \<Rightarrow>
               if startswith s (py ''NaN'') then Some (PFloat (py ''NaN''), 3)
               else if startswith s (py ''Infinity'') then Some (PFloat (py ''Infinity''), 8)
               else if startswith s (py ''-Infinity'') then Some (PFloat (py ''-Infinity''), 9)
               else None)"

text \<open>The token at the start of a text that is not empty, and its length.\<close>

definition scan_token :: "pystr \<Rightarrow> (token \<times> nat) option" where
  "scan_token s =
     (case s of
        [] \<Rightarrow> None
      | c # cs \<Rightarrow>
          if c = 123 then Some (LBrace, 1)
          else if c = 125 then Some (RBrace, 1)
          else if c = 91 then Some (LBracket, 1)
          else if c = 93 then Some (RBracket, 1)
          else if c = 58 then Some (Colon, 1)
          else if c = 44 then Some (Comma, 1)
          else if c = 34 then map_option (\<lambda>(str, n). (Atom (PStr str), n + 1)) (scan_string cs)
          else map_option (\<lambda>(v, n). (Atom v, n)) (scan_literal s))"

text \<open>
  The tokens of a text. \<open>skip\<close> counts the code points of the token just read that
  are still to be passed over.
\<close>

fun tokenize :: "nat \<Rightarrow> pystr \<Rightarrow> token list option" where
  "tokenize skip [] = Some []"
| "tokenize skip (c # cs) =
     (if 0 < skip then tokenize (skip - 1) cs
      else if c = 32 \<or> c = 9 \<or> c = 10 \<or> c = 13 then tokenize 0 cs
      else case scan_token (c # cs) of
             None \<Rightarrow> None
           | Some (tok, n) \<Rightarrow> map_option (Cons tok) (tokenize (n - 1) cs))"

text \<open>
  The machine that reads the tokens. A frame is an array or an object that is still
  open, with what it holds so far; an object that has read a key waits for its value.
\<close>

datatype frame =
    ListFrame "pyval list"
  | DictFrame "(pystr \<times> pyval) list"
  | KeyFrame "(pystr \<times> pyval) list" pystr

datatype expect =
    ExpValue | ExpValueOrClose | ExpKeyOrClose | ExpKey | ExpColon | ExpCommaOrClose

datatype pstate = Parsing "frame list" expect | Finished pyval

fun deliver :: "pyval \<Rightarrow> frame list \<Rightarrow> pstate option" where
  "deliver v [] = Some (Finished v)"
| "deliver v (ListFrame acc # st) = Some (Parsing (ListFrame (acc @ [v]) # st) ExpCommaOrClose)"
| "deliver v (KeyFrame acc k # st) =
     Some (Parsing (DictFrame (AList.update k v acc) # st) ExpCommaOrClose)"
| "deliver v (DictFrame acc # st) = None"

fun start_value :: "frame list \<Rightarrow> token \<Rightarrow> pstate option" where
  "start_value st (Atom v) = deliver v st"
| "start_value st LBracket = Some (Parsing (ListFrame [] # st) ExpValueOrClose)"
| "start_value st LBrace = Some (Parsing (DictFrame [] # st) ExpKeyOrClose)"
| "start_value st tok = None"

fun start_key :: "frame list \<Rightarrow> token \<Rightarrow> pstate option" where
  "start_key (DictFrame acc # st) (Atom (PStr k)) = Some (Parsing (KeyFrame acc k # st) ExpColon)"
| "start_key st tok = None"

fun close :: "frame list \<Rightarrow> token \<Rightarrow> pstate option" where
  "close (ListFrame acc # st) RBracket = deliver (PList acc) st"
| "close (DictFrame acc # st) RBrace = deliver (PDict acc) st"
| "close st tok = None"

fun step :: "pstate \<Rightarrow> token \<Rightarrow> pstate option" where
  "step (Finished v) tok = None"
| "step (Parsing st ExpValue) tok = start_value st tok"
| "step (Parsing st ExpValueOrClose) tok =
     (if tok = RBracket then close st tok else start_value st tok)"
| "step (Parsing st ExpKeyOrClose) tok =
     (if tok = RBrace then close st tok else start_key st tok)"
| "step (Parsing st ExpKey) tok = start_key st tok"
| "step (Parsing st ExpColon) tok = (if tok = Colon then Some (Parsing st ExpValue) else None)"
| "step (Parsing st ExpCommaOrClose) tok =
     (if tok = Comma then
        (case st of
           ListFrame acc # st' \<Rightarrow> Some (Parsing st ExpValue)
         | DictFrame acc # st' \<Rightarrow> Some (Parsing st ExpKey)
         | _ \<Rightarrow> None)
      else close st tok)"

fun run :: "pstate \<Rightarrow> token list \<Rightarrow> pstate option" where
  "run s [] = Some s"
| "run s (tok # toks) = (case step s tok of None \<Rightarrow> None | Some s' \<Rightarrow> run s' toks)"

definition decode_error :: py_exception where
  "decode_error = Raised JSONDecodeError (py ''Expecting value'')"

definition json_loads :: "pystr \<Rightarrow> py_exception + pyval" where
  "json_loads s =
     (if startswith s [65279] then Inl decode_error
      else case tokenize 0 s of
             None \<Rightarrow> Inl decode_error
           | Some toks \<Rightarrow>
               (case run (Parsing [] ExpValue) toks of
                  Some (Finished v) \<Rightarrow> Inr v
                | _ \<Rightarrow> Inl decode_error))"

section \<open>An environment for examples\<close>

text \<open>
  An environment in which every call outside the program succeeds: the key that is
  set (if any), the text of the reply of the model, and the reading of the clock. The
  image it loads is already in mode RGB, and the decoder is the reference decoder.
\<close>

definition example_env :: "pystr option \<Rightarrow> pystr \<Rightarrow> pystr \<Rightarrow> env" where
  "example_env key reply now =
     \<lparr>getenv = (\<lambda>name. if name = py ''GOOGLE_GEMINI_API_KEY'' then key else None),
      configure = (\<lambda>k. Inr ()),
      requests_get = (\<lambda>url. Inr \<lparr>status_code = 200, content = []\<rparr>),
      raise_for_status = (\<lambda>r. Inr ()),
      image_open_bytes = (\<lambda>bs. Inr \<lparr>mode = py ''RGB'', pixels = bs\<rparr>),
      image_open_path = (\<lambda>path. Inr \<lparr>mode = py ''RGB'', pixels = []\<rparr>),
      convert_rgb = (\<lambda>img. Inr (img\<lparr>mode := py ''RGB''\<rparr>)),
      generate_content = (\<lambda>img. Inr (Inr reply)),
      decoder = json_loads,
      clock = now\<rparr>"

section \<open>Facts about the operations\<close>

lemma create_fallback_response_raises:
  "create_fallback_response now raw = Inl (Raised NameError (py ''name 'datetime' is not defined''))"
  by (simp add: create_fallback_response_def datetime_now_isoformat_def resolve_def
      module_globals_def bind_exc_def quote_def Let_def)

lemma valid_departments_eq:
  "valid_departments = map py [''FIRE'', ''WATER'', ''ELECTRIC'', ''ROADS'', ''WASTE'', ''PARKS'',
     ''BUILDING'', ''HEALTH'', ''TRANSPORT'', ''TRAFFIC'', ''EDUCATION'', ''CIVIC INFRASTRUCTURE'',
     ''COMMUNICATION'', ''DISASTER RELIEF'']"
  by (simp add: valid_departments_def departments_def)

lemma valid_priorities_eq:
  "valid_priorities = map py [''CRITICAL'', ''HIGH'', ''MEDIUM'', ''LOW'']"
  by (simp add: valid_priorities_def priority_levels_def)

lemma now_in_validate:
  "datetime_now_isoformat
     [''self'', ''result'', ''required_fields'', ''field'', ''valid_departments'',
      ''valid_priorities'', ''datetime''] now = Inr now"
  by (simp add: datetime_now_isoformat_def resolve_def bind_exc_def)

lemma key_distinct:
  "py ''department'' \<noteq> py ''priority''" "py ''department'' \<noteq> py ''description''"
  "py ''priority'' \<noteq> py ''description''" "py ''priority'' \<noteq> py ''department''"
  "py ''description'' \<noteq> py ''department''" "py ''description'' \<noteq> py ''priority''"
  "py ''timestamp'' \<noteq> py ''department''" "py ''timestamp'' \<noteq> py ''priority''"
  "py ''timestamp'' \<noteq> py ''description''" "py ''timestamp'' \<noteq> py ''status''"
  "py ''status'' \<noteq> py ''department''" "py ''status'' \<noteq> py ''priority''"
  "py ''status'' \<noteq> py ''description''" "py ''status'' \<noteq> py ''timestamp''"
  "py ''department'' \<noteq> py ''timestamp''" "py ''department'' \<noteq> py ''status''"
  "py ''priority'' \<noteq> py ''timestamp''" "py ''priority'' \<noteq> py ''status''"
  "py ''description'' \<noteq> py ''timestamp''" "py ''description'' \<noteq> py ''status''"
  by (simp_all add: py_def)

lemma ensure_fields_dict:
  "\<exists>d1. ensure_fields fs (PDict d0) = Inr (PDict d1) \<and>
        map_of d1 = (\<lambda>k. if k \<in> set fs \<and> map_of d0 k = None
                           then Some (PStr (py ''UNKNOWN'')) else map_of d0 k)"
proof (induction fs arbitrary: d0)
  case Nil
  show ?case by simp
next
  case (Cons f fs)
  define d' where "d' = (if map_of d0 f = None then AList.update f (PStr (py ''UNKNOWN'')) d0 else d0)"
  have step: "ensure_fields (f # fs) (PDict d0) = ensure_fields fs (PDict d')"
    by (simp add: bind_exc_def d'_def)
  from Cons.IH [of d'] obtain d1 where
    d1: "ensure_fields fs (PDict d') = Inr (PDict d1)"
    and m: "map_of d1 = (\<lambda>k. if k \<in> set fs \<and> map_of d' k = None
                           then Some (PStr (py ''UNKNOWN'')) else map_of d' k)"
    by blast
  have "map_of d1 = (\<lambda>k. if k \<in> set (f # fs) \<and> map_of d0 k = None
                           then Some (PStr (py ''UNKNOWN'')) else map_of d0 k)"
    unfolding m d'_def by (auto simp add: fun_eq_iff update_conv')
  with step d1 show ?case by simp
qed

lemma validate_not_dict:
  assumes "\<forall>d. v \<noteq> PDict d"
  shows "\<exists>m. validate_and_enhance_result now v = Inl (Raised TypeError m)"
  using assms
  by (cases v) (auto simp add: validate_and_enhance_result_def required_fields_def bind_exc_def)


lemma validate_dict:
  "\<exists>d2. (\<forall>now. validate_and_enhance_result now (PDict d0) =
             Inr (PDict (AList.update (py ''status'') (PStr (py ''PENDING''))
                          (AList.update (py ''timestamp'') (PStr now) d2)))) \<and>
        map_of d2 = (map_of d0)
          (py ''description'' \<mapsto> (case map_of d0 (py ''description'') of
                                    None \<Rightarrow> PStr (py ''UNKNOWN'') | Some v \<Rightarrow> v),
           py ''department'' \<mapsto> (case map_of d0 (py ''department'') of
                                    None \<Rightarrow> PStr (py ''BUILDING'')
                                  | Some v \<Rightarrow> if v \<in> PStr ` set valid_departments then v
                                              else PStr (py ''BUILDING'')),
           py ''priority'' \<mapsto> (case map_of d0 (py ''priority'') of
                                    None \<Rightarrow> PStr (py ''MEDIUM'')
                                  | Some v \<Rightarrow> if v \<in> PStr ` set valid_priorities then v
                                              else PStr (py ''MEDIUM'')))"
proof -
  obtain d1 where e: "ensure_fields required_fields (PDict d0) = Inr (PDict d1)"
    and m1: "map_of d1 = (\<lambda>k. if k \<in> set required_fields \<and> map_of d0 k = None
                           then Some (PStr (py ''UNKNOWN'')) else map_of d0 k)"
    using ensure_fields_dict by blast
  have unk_dep: "PStr (py ''UNKNOWN'') \<notin> PStr ` set valid_departments"
    by (simp add: valid_departments_eq py_def)
  have unk_pri: "PStr (py ''UNKNOWN'') \<notin> PStr ` set valid_priorities"
    by (simp add: valid_priorities_eq py_def)
  define dep where "dep = (case map_of d0 (py ''department'') of
                                    None \<Rightarrow> PStr (py ''BUILDING'')
                                  | Some v \<Rightarrow> if v \<in> PStr ` set valid_departments then v
                                              else PStr (py ''BUILDING''))"
  define pri where "pri = (case map_of d0 (py ''priority'') of
                                    None \<Rightarrow> PStr (py ''MEDIUM'')
                                  | Some v \<Rightarrow> if v \<in> PStr ` set valid_priorities then v
                                              else PStr (py ''MEDIUM''))"
  define da where "da = (if the (map_of d1 (py ''department'')) \<notin> PStr ` set valid_departments
     then AList.update (py ''department'') (PStr (py ''BUILDING'')) d1 else d1)"
  define db where "db = (if the (map_of da (py ''priority'')) \<notin> PStr ` set valid_priorities
     then AList.update (py ''priority'') (PStr (py ''MEDIUM'')) da else da)"
  have g1: "map_of d1 (py ''department'') \<noteq> None" "map_of d1 (py ''priority'') \<noteq> None"
    by (simp_all add: m1 required_fields_def)
  have ma: "map_of da = (map_of d1)(py ''department'' \<mapsto> dep)"
    unfolding da_def dep_def using unk_dep
    by (auto simp add: m1 required_fields_def update_conv' fun_eq_iff key_distinct split: option.splits)
  have g2: "map_of da (py ''priority'') \<noteq> None"
    using g1 by (simp add: ma key_distinct)
  have mb: "map_of db = (map_of da)(py ''priority'' \<mapsto> pri)"
    unfolding db_def pri_def using unk_pri
    by (auto simp add: ma m1 required_fields_def update_conv' fun_eq_iff key_distinct split: option.splits)
  have v: "validate_and_enhance_result now (PDict d0) =
             Inr (PDict (AList.update (py ''status'') (PStr (py ''PENDING''))
                          (AList.update (py ''timestamp'') (PStr now) db)))" for now
    using g1 g2 unfolding validate_and_enhance_result_def e da_def db_def
    by (auto simp add: bind_exc_def now_in_validate)
  have "map_of db = (map_of d0)
          (py ''description'' \<mapsto> (case map_of d0 (py ''description'') of
                                    None \<Rightarrow> PStr (py ''UNKNOWN'') | Some v \<Rightarrow> v),
           py ''department'' \<mapsto> dep, py ''priority'' \<mapsto> pri)"
    unfolding mb ma m1
    by (auto simp add: required_fields_def fun_eq_iff key_distinct dep_def pri_def split: option.splits)
  with v show ?thesis unfolding dep_def pri_def by blast
qed


lemma str_contains_self: "str_contains s s"
proof -
  have "startswith s s" by (induction s) simp_all
  then show ?thesis by (cases s) simp_all
qed

lemma parse_response_sentinel:
  assumes "strip text = py ''NON_CIVIC_ISSUE'' \<or> str_contains (py ''NON_CIVIC_ISSUE'') (strip text)"
  shows "parse_response loads now text = Inr (PStr non_civic_message)"
  using assms by (simp add: parse_response_def Let_def)

lemma parse_response_no_sentinel:
  assumes "\<not> str_contains (py ''NON_CIVIC_ISSUE'') (strip text)"
  shows "parse_response loads now text =
           bind_exc (loads (strip_fences (strip text))) (validate_and_enhance_result now)"
proof -
  have "strip text \<noteq> py ''NON_CIVIC_ISSUE''"
    using assms str_contains_self [of "py ''NON_CIVIC_ISSUE''"] by auto
  with assms show ?thesis by (simp add: parse_response_def Let_def)
qed

lemma validate_never_decode_error:
  "validate_and_enhance_result now v = Inl e \<Longrightarrow> exc_class_of e = TypeError"
proof (cases "\<exists>d. v = PDict d")
  case True
  then obtain d where "v = PDict d" by blast
  moreover assume "validate_and_enhance_result now v = Inl e"
  ultimately show ?thesis using validate_dict [of d] by auto
next
  case False
  moreover assume "validate_and_enhance_result now v = Inl e"
  ultimately show ?thesis using validate_not_dict [of v now] by auto
qed

lemma drop_timestamp_validate:
  "map_sum id drop_timestamp (validate_and_enhance_result a v) =
   map_sum id drop_timestamp (validate_and_enhance_result b v)"
proof (cases "\<exists>d. v = PDict d")
  case True
  then obtain d where v: "v = PDict d" by blast
  obtain d2 where "\<forall>now. validate_and_enhance_result now (PDict d) =
             Inr (PDict (AList.update (py ''status'') (PStr (py ''PENDING''))
                          (AList.update (py ''timestamp'') (PStr now) d2)))"
    using validate_dict [of d] by blast
  then show ?thesis
    by (simp add: v delete_update delete_update_same key_distinct)
next
  case False
  then have nd: "\<forall>d. v \<noteq> PDict d" by blast
  have "validate_and_enhance_result a v = validate_and_enhance_result b v"
    using nd
    by (cases v) (auto simp add: validate_and_enhance_result_def required_fields_def bind_exc_def)
  then show ?thesis by simp
qed

lemmas decode_eval = py_def json_loads_def scan_token_def emit_def scan_literal_def scan_number_def
  unescape_def hex4_def hex_digit_def is_digit_def decimal_def decode_error_def

lemmas text_eval = py_def strip_def isspace_def strip_fences_def endswith_def lower_def lower_cp_def
  negative_keywords_def

lemma normalize_decode_error:
  assumes "decode (strip_fences (strip text)) = Inl e" and "exc_class_of e = JSONDecodeError"
  shows "normalize_response decode now text =
           (if str_contains (py ''NON_CIVIC_ISSUE'') (strip text)
               \<or> (\<exists>keyword\<in>set negative_keywords. str_contains keyword (lower text))
            then Inr (PStr non_civic_message)
            else Inl (Raised NameError (py ''name 'datetime' is not defined'')))"
proof (cases "str_contains (py ''NON_CIVIC_ISSUE'') (strip text)")
  case True
  then show ?thesis
    by (simp add: normalize_response_def parse_response_sentinel)
next
  case False
  then show ?thesis using assms
    by (simp add: normalize_response_def parse_response_no_sentinel bind_exc_def
        on_decode_error_def create_fallback_response_raises)
qed

lemma replicate_numeral: "replicate (numeral k) x = x # replicate (pred_numeral k) x"
  by (simp add: numeral_eq_Suc)

lemma strip_id:
  assumes "s \<noteq> []" and "\<not> isspace (hd s)" and "\<not> isspace (last s)"
  shows "strip s = s"
proof -
  have "dropWhile isspace s = s"
    using assms by (simp add: dropWhile_eq_self_iff)
  moreover have "dropWhile isspace (rev s) = rev s"
    using assms by (simp add: dropWhile_eq_self_iff hd_rev)
  ultimately show ?thesis by (simp add: strip_def)
qed

lemma not_endswith:
  assumes "s \<noteq> []" and "p \<noteq> []" and "last s \<noteq> last p"
  shows "\<not> endswith s p"
proof -
  obtain s' a where s: "s = s' @ [a]" using assms(1) by (cases s rule: rev_cases) auto
  obtain p' b where p: "p = p' @ [b]" using assms(2) by (cases p rule: rev_cases) auto
  show ?thesis using assms(3) by (simp add: endswith_def s p)
qed

lemma validate_in_range:
  assumes "validate_and_enhance_result now (PDict d0) = Inr (PDict d)"
  shows "(\<exists>dep\<in>set valid_departments. map_of d (py ''department'') = Some (PStr dep)) \<and>
         (\<exists>pri\<in>set valid_priorities. map_of d (py ''priority'') = Some (PStr pri))"
proof -
  obtain d2 where v: "\<forall>now. validate_and_enhance_result now (PDict d0) =
             Inr (PDict (AList.update (py ''status'') (PStr (py ''PENDING''))
                          (AList.update (py ''timestamp'') (PStr now) d2)))"
    and m: "map_of d2 = (map_of d0)
          (py ''description'' \<mapsto> (case map_of d0 (py ''description'') of
                                    None \<Rightarrow> PStr (py ''UNKNOWN'') | Some v \<Rightarrow> v),
           py ''department'' \<mapsto> (case map_of d0 (py ''department'') of
                                    None \<Rightarrow> PStr (py ''BUILDING'')
                                  | Some v \<Rightarrow> if v \<in> PStr ` set valid_departments then v
                                              else PStr (py ''BUILDING'')),
           py ''priority'' \<mapsto> (case map_of d0 (py ''priority'') of
                                    None \<Rightarrow> PStr (py ''MEDIUM'')
                                  | Some v \<Rightarrow> if v \<in> PStr ` set valid_priorities then v
                                              else PStr (py ''MEDIUM'')))"
    using validate_dict [of d0] by blast
  have d: "d = AList.update (py ''status'') (PStr (py ''PENDING''))
                          (AList.update (py ''timestamp'') (PStr now) d2)"
    using v assms by simp
  have b: "py ''BUILDING'' \<in> set valid_departments"
    by (simp add: valid_departments_eq)
  have md: "py ''MEDIUM'' \<in> set valid_priorities"
    by (simp add: valid_priorities_eq)
  have "\<exists>dep\<in>set valid_departments. map_of d (py ''department'') = Some (PStr dep)"
    unfolding d using b
    by (auto simp add: update_conv' m key_distinct split: option.splits)
  moreover have "\<exists>pri\<in>set valid_priorities. map_of d (py ''priority'') = Some (PStr pri)"
    unfolding d using md
    by (auto simp add: update_conv' m key_distinct split: option.splits)
  ultimately show ?thesis by blast
qed

lemma normalize_dict_result:
  assumes "normalize_response decode now reply = Inr (PDict d)"
  shows "\<exists>d0. decode (strip_fences (strip reply)) = Inr (PDict d0) \<and>
              validate_and_enhance_result now (PDict d0) = Inr (PDict d)"
proof (cases "str_contains (py ''NON_CIVIC_ISSUE'') (strip reply)")
  case True
  then show ?thesis using assms
    by (simp add: normalize_response_def parse_response_sentinel)
next
  case False
  show ?thesis
  proof (cases "decode (strip_fences (strip reply))")
    case (Inl e)
    then show ?thesis using False assms
      by (auto simp add: normalize_response_def parse_response_no_sentinel bind_exc_def
          on_decode_error_def create_fallback_response_raises split: if_splits)
  next
    case (Inr v)
    have n: "normalize_response decode now reply = validate_and_enhance_result now v"
      using False Inr validate_never_decode_error [of now v]
      by (auto simp add: normalize_response_def parse_response_no_sentinel bind_exc_def
          split: sum.splits)
    have "\<exists>d0. v = PDict d0"
      using validate_not_dict [of v now] assms n by auto
    then show ?thesis using Inr assms n by auto
  qed
qed

lemmas validate_eval = validate_and_enhance_result_def required_fields_def bind_exc_def
  now_in_validate valid_departments_eq valid_priorities_eq

lemma io_try_returns:
  "\<exists>r evs. io_try body (\<lambda>e. io_return (h e)) = (Inr r, evs)"
  by (cases body; cases "fst body") (auto simp add: io_try_def io_return_def)

lemma analyze_image_bitmap:
  assumes "mode img = py ''RGB''" and "generate_content env img = Inr (Inr reply)"
  shows "analyze_image env (Bitmap img) =
           (Inr (case normalize_response (decoder env) (clock env) reply of
                   Inr r \<Rightarrow> r
                 | Inl e \<Rightarrow> PStr (py ''Error: Unable to analyze image - '' @ str_exc e)),
            [Generate])"
  using assms
  by (simp add: analyze_image_def io_try_def io_bind_def io_return_def io_lift_def io_call_def
      bind_exc_def split: sum.splits)

section \<open>The claims\<close>

text \<open>
  C1. The claim: a reply that fails to decode as JSON and holds none of the negative
  phrases gives a fallback record (department \<^verbatim>\<open>BUILDING\<close>, priority \<^verbatim>\<open>MEDIUM\<close>, the
  reply cut to 200 characters, confidence 0.5, status \<^verbatim>\<open>PENDING\<close>), and this path does
  not raise. The code does not do so: \<^verbatim>\<open>_create_fallback_response\<close> reads \<^verbatim>\<open>datetime\<close>,
  which the module never imports (only \<^verbatim>\<open>_validate_and_enhance_result\<close> imports it,
  locally), so on every such reply the normaliser raises \<^verbatim>\<open>NameError\<close> and no fallback
  record is ever built. The theorem states what the code does on these replies.
\<close>

theorem fallback_record_raises_name_error:
  assumes "decode (strip_fences (strip text)) = Inl e" and "exc_class_of e = JSONDecodeError"
    and "\<not> str_contains (py ''NON_CIVIC_ISSUE'') (strip text)"
    and "\<forall>keyword\<in>set negative_keywords. \<not> str_contains keyword (lower text)"
  shows "normalize_response decode now text =
           Inl (Raised NameError (py ''name 'datetime' is not defined''))"
  using assms by (simp add: normalize_decode_error)

theorem fallback_record_raises_name_error_witness:
  "json_loads (strip_fences (strip (concat (replicate 13 (py ''garbled nonsense''))))) = Inl decode_error
   \<and> exc_class_of decode_error = JSONDecodeError
   \<and> \<not> str_contains (py ''NON_CIVIC_ISSUE'') (strip (concat (replicate 13 (py ''garbled nonsense''))))
   \<and> \<not> (\<exists>keyword\<in>set negative_keywords.
         str_contains keyword (lower (concat (replicate 13 (py ''garbled nonsense'')))))
   \<and> normalize_response json_loads (py ''2024-05-01T10:00:00'')
        (concat (replicate 13 (py ''garbled nonsense''))) =
       Inl (Raised NameError (py ''name 'datetime' is not defined''))
   \<and> analyze_image
        (example_env (Some (py ''key'')) (concat (replicate 13 (py ''garbled nonsense'')))
           (py ''2024-05-01T10:00:00''))
        (Bitmap \<lparr>mode = py ''RGB'', pixels = []\<rparr>) =
       (Inr (PStr (py ''Error: Unable to analyze image - name 'datetime' is not defined'')),
        [Generate])"
proof -
  define reply where "reply = concat (replicate 13 (py ''garbled nonsense''))"
  have s: "strip reply = reply"
    unfolding reply_def by (rule strip_id) (simp_all add: replicate_numeral py_def isspace_def)
  have "\<not> endswith reply (py ''```'')"
    unfolding reply_def by (rule not_endswith) (simp_all add: replicate_numeral py_def)
  then have f: "strip_fences reply = reply"
    unfolding reply_def by (simp add: replicate_numeral py_def strip_fences_def)
  have l: "lower reply = reply"
    unfolding reply_def by (simp add: replicate_numeral py_def lower_def lower_cp_def)
  have 1: "json_loads (strip_fences (strip reply)) = Inl decode_error"
    unfolding s f unfolding reply_def by (simp add: replicate_numeral decode_eval)
  have 2: "exc_class_of decode_error = JSONDecodeError"
    by (simp add: decode_error_def)
  have 3: "\<not> str_contains (py ''NON_CIVIC_ISSUE'') (strip reply)"
    unfolding s unfolding reply_def by (simp add: replicate_numeral py_def)
  have 4: "\<forall>keyword\<in>set negative_keywords. \<not> str_contains keyword (lower reply)"
    unfolding l unfolding reply_def by (simp add: replicate_numeral py_def negative_keywords_def)
  have 5: "normalize_response json_loads (py ''2024-05-01T10:00:00'') reply =
             Inl (Raised NameError (py ''name 'datetime' is not defined''))"
    using fallback_record_raises_name_error
      [of json_loads reply decode_error "py ''2024-05-01T10:00:00''", OF 1 2 3 4] .
  have 6: "analyze_image (example_env (Some (py ''key'')) reply (py ''2024-05-01T10:00:00''))
             (Bitmap \<lparr>mode = py ''RGB'', pixels = []\<rparr>) =
           (Inr (PStr (py ''Error: Unable to analyze image - name 'datetime' is not defined'')),
            [Generate])"
    using analyze_image_bitmap
      [of "\<lparr>mode = py ''RGB'', pixels = []\<rparr>"
          "example_env (Some (py ''key'')) reply (py ''2024-05-01T10:00:00'')" reply] 5
    by (simp add: example_env_def py_def)
  show ?thesis
    using 1 2 3 4 5 6 unfolding reply_def by blast
qed

text \<open>
  C2. Every report that validation returns has a department of the closed set of
  departments and a priority among \<^verbatim>\<open>CRITICAL\<close>, \<^verbatim>\<open>HIGH\<close>, \<^verbatim>\<open>MEDIUM\<close>, \<^verbatim>\<open>LOW\<close>: a value
  outside the set (or a missing one) becomes \<^verbatim>\<open>BUILDING\<close>, respectively \<^verbatim>\<open>MEDIUM\<close>, and a
  value of the set is kept. So every \<^verbatim>\<open>dict\<close> the normaliser returns is in range.
\<close>

theorem department_and_priority_in_range:
  "(normalize_response decode now reply = Inr (PDict d) \<longrightarrow>
      (\<exists>dep\<in>set valid_departments. map_of d (py ''department'') = Some (PStr dep)) \<and>
      (\<exists>pri\<in>set valid_priorities. map_of d (py ''priority'') = Some (PStr pri)))
   \<and> (\<exists>d'. validate_and_enhance_result now (PDict d0) = Inr (PDict d') \<and>
        (\<exists>dep\<in>set valid_departments. map_of d' (py ''department'') = Some (PStr dep)) \<and>
        (\<exists>pri\<in>set valid_priorities. map_of d' (py ''priority'') = Some (PStr pri)) \<and>
        map_of d' (py ''department'') =
          Some (case map_of d0 (py ''department'') of
                  None \<Rightarrow> PStr (py ''BUILDING'')
                | Some v \<Rightarrow> if v \<in> PStr ` set valid_departments then v
                            else PStr (py ''BUILDING'')) \<and>
        map_of d' (py ''priority'') =
          Some (case map_of d0 (py ''priority'') of
                  None \<Rightarrow> PStr (py ''MEDIUM'')
                | Some v \<Rightarrow> if v \<in> PStr ` set valid_priorities then v
                            else PStr (py ''MEDIUM'')))
   \<and> py ''BUILDING'' \<in> set valid_departments
   \<and> set valid_priorities = {py ''CRITICAL'', py ''HIGH'', py ''MEDIUM'', py ''LOW''}"
proof -
  have 1: "normalize_response decode now reply = Inr (PDict d) \<longrightarrow>
      (\<exists>dep\<in>set valid_departments. map_of d (py ''department'') = Some (PStr dep)) \<and>
      (\<exists>pri\<in>set valid_priorities. map_of d (py ''priority'') = Some (PStr pri))"
    using normalize_dict_result [of decode now reply d] validate_in_range [of now _ d] by blast
  obtain d2 where v: "\<forall>now. validate_and_enhance_result now (PDict d0) =
             Inr (PDict (AList.update (py ''status'') (PStr (py ''PENDING''))
                          (AList.update (py ''timestamp'') (PStr now) d2)))"
    and m: "map_of d2 = (map_of d0)
          (py ''description'' \<mapsto> (case map_of d0 (py ''description'') of
                                    None \<Rightarrow> PStr (py ''UNKNOWN'') | Some v \<Rightarrow> v),
           py ''department'' \<mapsto> (case map_of d0 (py ''department'') of
                                    None \<Rightarrow> PStr (py ''BUILDING'')
                                  | Some v \<Rightarrow> if v \<in> PStr ` set valid_departments then v
                                              else PStr (py ''BUILDING'')),
           py ''priority'' \<mapsto> (case map_of d0 (py ''priority'') of
                                    None \<Rightarrow> PStr (py ''MEDIUM'')
                                  | Some v \<Rightarrow> if v \<in> PStr ` set valid_priorities then v
                                              else PStr (py ''MEDIUM'')))"
    using validate_dict [of d0] by blast
  define d' where "d' = AList.update (py ''status'') (PStr (py ''PENDING''))
                          (AList.update (py ''timestamp'') (PStr now) d2)"
  have e: "validate_and_enhance_result now (PDict d0) = Inr (PDict d')"
    using v by (simp add: d'_def)
  have r: "(\<exists>dep\<in>set valid_departments. map_of d' (py ''department'') = Some (PStr dep)) \<and>
        (\<exists>pri\<in>set valid_priorities. map_of d' (py ''priority'') = Some (PStr pri))"
    using validate_in_range [OF e] .
  have c1: "map_of d' (py ''department'') =
          Some (case map_of d0 (py ''department'') of
                  None \<Rightarrow> PStr (py ''BUILDING'')
                | Some v \<Rightarrow> if v \<in> PStr ` set valid_departments then v
                            else PStr (py ''BUILDING''))"
    by (simp add: d'_def update_conv' m key_distinct)
  have c2: "map_of d' (py ''priority'') =
          Some (case map_of d0 (py ''priority'') of
                  None \<Rightarrow> PStr (py ''MEDIUM'')
                | Some v \<Rightarrow> if v \<in> PStr ` set valid_priorities then v
                            else PStr (py ''MEDIUM''))"
    by (simp add: d'_def update_conv' m key_distinct)
  have 3: "py ''BUILDING'' \<in> set valid_departments"
    by (simp add: valid_departments_eq)
  have 4: "set valid_priorities = {py ''CRITICAL'', py ''HIGH'', py ''MEDIUM'', py ''LOW''}"
    by (simp add: valid_priorities_eq)
  from 1 e r c1 c2 3 4 show ?thesis by blast
qed

theorem department_and_priority_in_range_witness:
  "normalize_response json_loads (py ''2024-05-01T10:00:00'')
     (py ''{\"department\":\"SANITATION\",\"priority\":\"URGENT\",\"description\":\"blocked drain\"}'')
     = Inr (PDict [(py ''department'', PStr (py ''BUILDING'')),
                   (py ''priority'', PStr (py ''MEDIUM'')),
                   (py ''description'', PStr (py ''blocked drain'')),
                   (py ''timestamp'', PStr (py ''2024-05-01T10:00:00'')),
                   (py ''status'', PStr (py ''PENDING''))])
   \<and> (\<exists>dep\<in>set valid_departments.
         map_of [(py ''department'', PStr (py ''BUILDING'')),
                   (py ''priority'', PStr (py ''MEDIUM'')),
                   (py ''description'', PStr (py ''blocked drain'')),
                   (py ''timestamp'', PStr (py ''2024-05-01T10:00:00'')),
                   (py ''status'', PStr (py ''PENDING''))] (py ''department'') = Some (PStr dep))
   \<and> (\<exists>pri\<in>set valid_priorities.
         map_of [(py ''department'', PStr (py ''BUILDING'')),
                   (py ''priority'', PStr (py ''MEDIUM'')),
                   (py ''description'', PStr (py ''blocked drain'')),
                   (py ''timestamp'', PStr (py ''2024-05-01T10:00:00'')),
                   (py ''status'', PStr (py ''PENDING''))] (py ''priority'') = Some (PStr pri))"
proof -
  have 1: "normalize_response json_loads (py ''2024-05-01T10:00:00'')
     (py ''{\"department\":\"SANITATION\",\"priority\":\"URGENT\",\"description\":\"blocked drain\"}'')
     = Inr (PDict [(py ''department'', PStr (py ''BUILDING'')),
                   (py ''priority'', PStr (py ''MEDIUM'')),
                   (py ''description'', PStr (py ''blocked drain'')),
                   (py ''timestamp'', PStr (py ''2024-05-01T10:00:00'')),
                   (py ''status'', PStr (py ''PENDING''))])"
    by (simp add: normalize_response_def parse_response_def non_civic_message_def
        text_eval decode_eval validate_eval)
  show ?thesis
    using department_and_priority_in_range [of json_loads "py ''2024-05-01T10:00:00''"
       "py ''{\"department\":\"SANITATION\",\"priority\":\"URGENT\",\"description\":\"blocked drain\"}''"
       "[(py ''department'', PStr (py ''BUILDING'')),
                   (py ''priority'', PStr (py ''MEDIUM'')),
                   (py ''description'', PStr (py ''blocked drain'')),
                   (py ''timestamp'', PStr (py ''2024-05-01T10:00:00'')),
                   (py ''status'', PStr (py ''PENDING''))]" "[]"] 1
    by blast
qed

text \<open>
  C3. For the reply \<^verbatim>\<open>{"department":"BOGUS","priority":"SUPERHIGH"}\<close>, decoded as the
  object it denotes, the report has department \<^verbatim>\<open>BUILDING\<close>, priority \<^verbatim>\<open>MEDIUM\<close> and
  description \<^verbatim>\<open>UNKNOWN\<close>. In general the loop over the required fields sets each
  missing one to \<^verbatim>\<open>UNKNOWN\<close>, and a department or priority that was missing then gets
  the default, as \<^verbatim>\<open>UNKNOWN\<close> is in neither set; a missing description stays
  \<^verbatim>\<open>UNKNOWN\<close>.
\<close>

theorem missing_and_unknown_fields_get_defaults:
  "(decode (py ''{\"department\":\"BOGUS\",\"priority\":\"SUPERHIGH\"}'')
      = Inr (PDict [(py ''department'', PStr (py ''BOGUS'')),
                    (py ''priority'', PStr (py ''SUPERHIGH''))]) \<longrightarrow>
    normalize_response decode now (py ''{\"department\":\"BOGUS\",\"priority\":\"SUPERHIGH\"}'')
      = Inr (PDict [(py ''department'', PStr (py ''BUILDING'')),
                    (py ''priority'', PStr (py ''MEDIUM'')),
                    (py ''description'', PStr (py ''UNKNOWN'')),
                    (py ''timestamp'', PStr now),
                    (py ''status'', PStr (py ''PENDING''))]))
   \<and> (\<exists>d1. ensure_fields required_fields (PDict d0) = Inr (PDict d1) \<and>
          (\<forall>k\<in>set required_fields.
             map_of d1 k = Some (case map_of d0 k of None \<Rightarrow> PStr (py ''UNKNOWN'') | Some v \<Rightarrow> v)))
   \<and> (\<exists>d. validate_and_enhance_result now (PDict d0) = Inr (PDict d) \<and>
          (map_of d0 (py ''department'') = None \<longrightarrow>
             map_of d (py ''department'') = Some (PStr (py ''BUILDING''))) \<and>
          (map_of d0 (py ''priority'') = None \<longrightarrow>
             map_of d (py ''priority'') = Some (PStr (py ''MEDIUM''))) \<and>
          (map_of d0 (py ''description'') = None \<longrightarrow>
             map_of d (py ''description'') = Some (PStr (py ''UNKNOWN''))))"
proof -
  have 1: "decode (py ''{\"department\":\"BOGUS\",\"priority\":\"SUPERHIGH\"}'')
      = Inr (PDict [(py ''department'', PStr (py ''BOGUS'')),
                    (py ''priority'', PStr (py ''SUPERHIGH''))]) \<longrightarrow>
    normalize_response decode now (py ''{\"department\":\"BOGUS\",\"priority\":\"SUPERHIGH\"}'')
      = Inr (PDict [(py ''department'', PStr (py ''BUILDING'')),
                    (py ''priority'', PStr (py ''MEDIUM'')),
                    (py ''description'', PStr (py ''UNKNOWN'')),
                    (py ''timestamp'', PStr now),
                    (py ''status'', PStr (py ''PENDING''))])"
  proof
    assume a: "decode (py ''{\"department\":\"BOGUS\",\"priority\":\"SUPERHIGH\"}'')
      = Inr (PDict [(py ''department'', PStr (py ''BOGUS'')),
                    (py ''priority'', PStr (py ''SUPERHIGH''))])"
    have s: "strip_fences (strip (py ''{\"department\":\"BOGUS\",\"priority\":\"SUPERHIGH\"}''))
             = py ''{\"department\":\"BOGUS\",\"priority\":\"SUPERHIGH\"}''"
      by (simp add: text_eval)
    have n: "\<not> str_contains (py ''NON_CIVIC_ISSUE'')
               (strip (py ''{\"department\":\"BOGUS\",\"priority\":\"SUPERHIGH\"}''))"
      by (simp add: text_eval)
    have v: "validate_and_enhance_result now (PDict [(py ''department'', PStr (py ''BOGUS'')),
                    (py ''priority'', PStr (py ''SUPERHIGH''))])
             = Inr (PDict [(py ''department'', PStr (py ''BUILDING'')),
                    (py ''priority'', PStr (py ''MEDIUM'')),
                    (py ''description'', PStr (py ''UNKNOWN'')),
                    (py ''timestamp'', PStr now),
                    (py ''status'', PStr (py ''PENDING''))])"
      by (simp add: validate_eval py_def)
    show "normalize_response decode now (py ''{\"department\":\"BOGUS\",\"priority\":\"SUPERHIGH\"}'')
      = Inr (PDict [(py ''department'', PStr (py ''BUILDING'')),
                    (py ''priority'', PStr (py ''MEDIUM'')),
                    (py ''description'', PStr (py ''UNKNOWN'')),
                    (py ''timestamp'', PStr now),
                    (py ''status'', PStr (py ''PENDING''))])"
      unfolding normalize_response_def parse_response_no_sentinel [OF n] s a
      by (simp add: bind_exc_def v)
  qed
  have 2: "\<exists>d1. ensure_fields required_fields (PDict d0) = Inr (PDict d1) \<and>
          (\<forall>k\<in>set required_fields.
             map_of d1 k = Some (case map_of d0 k of None \<Rightarrow> PStr (py ''UNKNOWN'') | Some v \<Rightarrow> v))"
    using ensure_fields_dict [of required_fields d0]
    by (auto split: option.splits)
  obtain d2 where v: "\<forall>now. validate_and_enhance_result now (PDict d0) =
             Inr (PDict (AList.update (py ''status'') (PStr (py ''PENDING''))
                          (AList.update (py ''timestamp'') (PStr now) d2)))"
    and m: "map_of d2 = (map_of d0)
          (py ''description'' \<mapsto> (case map_of d0 (py ''description'') of
                                    None \<Rightarrow> PStr (py ''UNKNOWN'') | Some v \<Rightarrow> v),
           py ''department'' \<mapsto> (case map_of d0 (py ''department'') of
                                    None \<Rightarrow> PStr (py ''BUILDING'')
                                  | Some v \<Rightarrow> if v \<in> PStr ` set valid_departments then v
                                              else PStr (py ''BUILDING'')),
           py ''priority'' \<mapsto> (case map_of d0 (py ''priority'') of
                                    None \<Rightarrow> PStr (py ''MEDIUM'')
                                  | Some v \<Rightarrow> if v \<in> PStr ` set valid_priorities then v
                                              else PStr (py ''MEDIUM'')))"
    using validate_dict [of d0] by blast
  have 3: "\<exists>d. validate_and_enhance_result now (PDict d0) = Inr (PDict d) \<and>
          (map_of d0 (py ''department'') = None \<longrightarrow>
             map_of d (py ''department'') = Some (PStr (py ''BUILDING''))) \<and>
          (map_of d0 (py ''priority'') = None \<longrightarrow>
             map_of d (py ''priority'') = Some (PStr (py ''MEDIUM''))) \<and>
          (map_of d0 (py ''description'') = None \<longrightarrow>
             map_of d (py ''description'') = Some (PStr (py ''UNKNOWN'')))"
    using v by (simp add: update_conv' m key_distinct)
  from 1 2 3 show ?thesis by blast
qed

theorem missing_and_unknown_fields_get_defaults_witness:
  "json_loads (py ''{\"department\":\"BOGUS\",\"priority\":\"SUPERHIGH\"}'')
      = Inr (PDict [(py ''department'', PStr (py ''BOGUS'')),
                    (py ''priority'', PStr (py ''SUPERHIGH''))])
   \<and> normalize_response json_loads (py ''2024-05-01T10:00:00'')
        (py ''{\"department\":\"BOGUS\",\"priority\":\"SUPERHIGH\"}'')
      = Inr (PDict [(py ''department'', PStr (py ''BUILDING'')),
                    (py ''priority'', PStr (py ''MEDIUM'')),
                    (py ''description'', PStr (py ''UNKNOWN'')),
                    (py ''timestamp'', PStr (py ''2024-05-01T10:00:00'')),
                    (py ''status'', PStr (py ''PENDING''))])
   \<and> ensure_fields required_fields (PDict [(py ''location_details'', PStr (py ''Main Street''))])
      = Inr (PDict [(py ''location_details'', PStr (py ''Main Street'')),
                    (py ''department'', PStr (py ''UNKNOWN'')),
                    (py ''priority'', PStr (py ''UNKNOWN'')),
                    (py ''description'', PStr (py ''UNKNOWN''))])
   \<and> validate_and_enhance_result (py ''2024-05-01T10:00:00'')
        (PDict [(py ''location_details'', PStr (py ''Main Street''))])
      = Inr (PDict [(py ''location_details'', PStr (py ''Main Street'')),
                    (py ''department'', PStr (py ''BUILDING'')),
                    (py ''priority'', PStr (py ''MEDIUM'')),
                    (py ''description'', PStr (py ''UNKNOWN'')),
                    (py ''timestamp'', PStr (py ''2024-05-01T10:00:00'')),
                    (py ''status'', PStr (py ''PENDING''))])"
proof -
  have 1: "json_loads (py ''{\"department\":\"BOGUS\",\"priority\":\"SUPERHIGH\"}'')
      = Inr (PDict [(py ''department'', PStr (py ''BOGUS'')),
                    (py ''priority'', PStr (py ''SUPERHIGH''))])"
    by (simp add: decode_eval)
  have 2: "ensure_fields required_fields (PDict [(py ''location_details'', PStr (py ''Main Street''))])
      = Inr (PDict [(py ''location_details'', PStr (py ''Main Street'')),
                    (py ''department'', PStr (py ''UNKNOWN'')),
                    (py ''priority'', PStr (py ''UNKNOWN'')),
                    (py ''description'', PStr (py ''UNKNOWN''))])"
    by (simp add: required_fields_def bind_exc_def py_def)
  have 3: "validate_and_enhance_result (py ''2024-05-01T10:00:00'')
        (PDict [(py ''location_details'', PStr (py ''Main Street''))])
      = Inr (PDict [(py ''location_details'', PStr (py ''Main Street'')),
                    (py ''department'', PStr (py ''BUILDING'')),
                    (py ''priority'', PStr (py ''MEDIUM'')),
                    (py ''description'', PStr (py ''UNKNOWN'')),
                    (py ''timestamp'', PStr (py ''2024-05-01T10:00:00'')),
                    (py ''status'', PStr (py ''PENDING''))])"
    by (simp add: validate_eval py_def)
  show ?thesis
    using missing_and_unknown_fields_get_defaults [of json_loads "py ''2024-05-01T10:00:00''"
        "[(py ''location_details'', PStr (py ''Main Street''))]"] 1 2 3
    by blast
qed

text \<open>
  C4. When the reply, stripped of white space, is the sentinel \<^verbatim>\<open>NON_CIVIC_ISSUE\<close> or
  holds it, the result is the fixed message, whatever the decoder would have made of
  the reply: the check comes before any decoding.
\<close>

theorem sentinel_gives_non_issue:
  assumes "strip reply = py ''NON_CIVIC_ISSUE'' \<or> str_contains (py ''NON_CIVIC_ISSUE'') (strip reply)"
  shows "normalize_response decode now reply = Inr (PStr non_civic_message)"
  using assms by (simp add: normalize_response_def parse_response_sentinel)

theorem sentinel_gives_non_issue_witness:
  "normalize_response json_loads (py ''2024-05-01T10:00:00'') (py ''NON_CIVIC_ISSUE'')
     = Inr (PStr non_civic_message)
   \<and> normalize_response json_loads (py ''2024-05-01T10:00:00'')
       (py ''some preamble NON_CIVIC_ISSUE trailing'') = Inr (PStr non_civic_message)
   \<and> json_loads (py ''{\"department\":\"FIRE\",\"description\":\"NON_CIVIC_ISSUE\"}'')
       = Inr (PDict [(py ''department'', PStr (py ''FIRE'')),
                     (py ''description'', PStr (py ''NON_CIVIC_ISSUE''))])
   \<and> normalize_response json_loads (py ''2024-05-01T10:00:00'')
       (py ''{\"department\":\"FIRE\",\"description\":\"NON_CIVIC_ISSUE\"}'')
       = Inr (PStr non_civic_message)"
proof -
  have 1: "strip (py ''NON_CIVIC_ISSUE'') = py ''NON_CIVIC_ISSUE''
           \<or> str_contains (py ''NON_CIVIC_ISSUE'') (strip (py ''NON_CIVIC_ISSUE''))"
    by (simp add: py_def strip_def isspace_def)
  have 2: "strip (py ''some preamble NON_CIVIC_ISSUE trailing'') = py ''NON_CIVIC_ISSUE''
           \<or> str_contains (py ''NON_CIVIC_ISSUE'') (strip (py ''some preamble NON_CIVIC_ISSUE trailing''))"
    by (simp add: py_def strip_def isspace_def)
  have 3: "strip (py ''{\"department\":\"FIRE\",\"description\":\"NON_CIVIC_ISSUE\"}'') = py ''NON_CIVIC_ISSUE''
           \<or> str_contains (py ''NON_CIVIC_ISSUE'')
                (strip (py ''{\"department\":\"FIRE\",\"description\":\"NON_CIVIC_ISSUE\"}''))"
    by (simp add: py_def strip_def isspace_def)
  have 4: "json_loads (py ''{\"department\":\"FIRE\",\"description\":\"NON_CIVIC_ISSUE\"}'')
       = Inr (PDict [(py ''department'', PStr (py ''FIRE'')),
                     (py ''description'', PStr (py ''NON_CIVIC_ISSUE''))])"
    by (simp add: decode_eval)
  show ?thesis
    using sentinel_gives_non_issue [OF 1, of json_loads "py ''2024-05-01T10:00:00''"]
      sentinel_gives_non_issue [OF 2, of json_loads "py ''2024-05-01T10:00:00''"]
      sentinel_gives_non_issue [OF 3, of json_loads "py ''2024-05-01T10:00:00''"] 4
    by blast
qed

text \<open>
  C5. For the reply that wraps \<^verbatim>\<open>{"department":"FIRE","priority":"CRITICAL","description":"x"}\<close>
  in a fence \<^verbatim>\<open>```json\<close> ... \<^verbatim>\<open>```\<close>, the seven code points of the opening fence and the
  three of the closing fence are removed, the rest is decoded, and the report has
  department \<^verbatim>\<open>FIRE\<close>, priority \<^verbatim>\<open>CRITICAL\<close>, description \<^verbatim>\<open>x\<close>, the time of the call and
  status \<^verbatim>\<open>PENDING\<close>. In general a department and a priority of the two sets are kept.
\<close>

theorem fenced_json_is_parsed:
  "(decode (py ''\<newline>{\"department\":\"FIRE\",\"priority\":\"CRITICAL\",\"description\":\"x\"}\<newline>'')
      = Inr (PDict [(py ''department'', PStr (py ''FIRE'')),
                    (py ''priority'', PStr (py ''CRITICAL'')),
                    (py ''description'', PStr (py ''x''))]) \<longrightarrow>
    normalize_response decode now
      (py ''```json\<newline>{\"department\":\"FIRE\",\"priority\":\"CRITICAL\",\"description\":\"x\"}\<newline>```'')
      = Inr (PDict [(py ''department'', PStr (py ''FIRE'')),
                    (py ''priority'', PStr (py ''CRITICAL'')),
                    (py ''description'', PStr (py ''x'')),
                    (py ''timestamp'', PStr now),
                    (py ''status'', PStr (py ''PENDING''))]))
   \<and> strip_fences (strip
        (py ''```json\<newline>{\"department\":\"FIRE\",\"priority\":\"CRITICAL\",\"description\":\"x\"}\<newline>```''))
       = py ''\<newline>{\"department\":\"FIRE\",\"priority\":\"CRITICAL\",\"description\":\"x\"}\<newline>''
   \<and> (\<forall>dep\<in>set valid_departments. \<forall>pri\<in>set valid_priorities.
         map_of d0 (py ''department'') = Some (PStr dep) \<and>
         map_of d0 (py ''priority'') = Some (PStr pri) \<longrightarrow>
         (\<exists>d. validate_and_enhance_result now (PDict d0) = Inr (PDict d) \<and>
              map_of d (py ''department'') = Some (PStr dep) \<and>
              map_of d (py ''priority'') = Some (PStr pri)))"
proof -
  have s: "strip_fences (strip
        (py ''```json\<newline>{\"department\":\"FIRE\",\"priority\":\"CRITICAL\",\"description\":\"x\"}\<newline>```''))
       = py ''\<newline>{\"department\":\"FIRE\",\"priority\":\"CRITICAL\",\"description\":\"x\"}\<newline>''"
    by (simp add: text_eval)
  have n: "\<not> str_contains (py ''NON_CIVIC_ISSUE'') (strip
        (py ''```json\<newline>{\"department\":\"FIRE\",\"priority\":\"CRITICAL\",\"description\":\"x\"}\<newline>```''))"
    by (simp add: text_eval)
  have v: "validate_and_enhance_result now (PDict [(py ''department'', PStr (py ''FIRE'')),
                    (py ''priority'', PStr (py ''CRITICAL'')),
                    (py ''description'', PStr (py ''x''))])
           = Inr (PDict [(py ''department'', PStr (py ''FIRE'')),
                    (py ''priority'', PStr (py ''CRITICAL'')),
                    (py ''description'', PStr (py ''x'')),
                    (py ''timestamp'', PStr now),
                    (py ''status'', PStr (py ''PENDING''))])"
    by (simp add: validate_eval py_def)
  have 1: "decode (py ''\<newline>{\"department\":\"FIRE\",\"priority\":\"CRITICAL\",\"description\":\"x\"}\<newline>'')
      = Inr (PDict [(py ''department'', PStr (py ''FIRE'')),
                    (py ''priority'', PStr (py ''CRITICAL'')),
                    (py ''description'', PStr (py ''x''))]) \<longrightarrow>
    normalize_response decode now
      (py ''```json\<newline>{\"department\":\"FIRE\",\"priority\":\"CRITICAL\",\"description\":\"x\"}\<newline>```'')
      = Inr (PDict [(py ''department'', PStr (py ''FIRE'')),
                    (py ''priority'', PStr (py ''CRITICAL'')),
                    (py ''description'', PStr (py ''x'')),
                    (py ''timestamp'', PStr now),
                    (py ''status'', PStr (py ''PENDING''))])"
    unfolding normalize_response_def parse_response_no_sentinel [OF n] s
    by (simp add: bind_exc_def v)
  obtain d2 where vd: "\<forall>now. validate_and_enhance_result now (PDict d0) =
             Inr (PDict (AList.update (py ''status'') (PStr (py ''PENDING''))
                          (AList.update (py ''timestamp'') (PStr now) d2)))"
    and m: "map_of d2 = (map_of d0)
          (py ''description'' \<mapsto> (case map_of d0 (py ''description'') of
                                    None \<Rightarrow> PStr (py ''UNKNOWN'') | Some v \<Rightarrow> v),
           py ''department'' \<mapsto> (case map_of d0 (py ''department'') of
                                    None \<Rightarrow> PStr (py ''BUILDING'')
                                  | Some v \<Rightarrow> if v \<in> PStr ` set valid_departments then v
                                              else PStr (py ''BUILDING'')),
           py ''priority'' \<mapsto> (case map_of d0 (py ''priority'') of
                                    None \<Rightarrow> PStr (py ''MEDIUM'')
                                  | Some v \<Rightarrow> if v \<in> PStr ` set valid_priorities then v
                                              else PStr (py ''MEDIUM'')))"
    using validate_dict [of d0] by blast
  have 3: "\<forall>dep\<in>set valid_departments. \<forall>pri\<in>set valid_priorities.
         map_of d0 (py ''department'') = Some (PStr dep) \<and>
         map_of d0 (py ''priority'') = Some (PStr pri) \<longrightarrow>
         (\<exists>d. validate_and_enhance_result now (PDict d0) = Inr (PDict d) \<and>
              map_of d (py ''department'') = Some (PStr dep) \<and>
              map_of d (py ''priority'') = Some (PStr pri))"
    using vd by (auto simp add: update_conv' m key_distinct)
  from 1 s 3 show ?thesis by blast
qed

theorem fenced_json_is_parsed_witness:
  "json_loads (py ''\<newline>{\"department\":\"FIRE\",\"priority\":\"CRITICAL\",\"description\":\"x\"}\<newline>'')
      = Inr (PDict [(py ''department'', PStr (py ''FIRE'')),
                    (py ''priority'', PStr (py ''CRITICAL'')),
                    (py ''description'', PStr (py ''x''))])
   \<and> normalize_response json_loads (py ''2024-05-01T10:00:00'')
      (py ''```json\<newline>{\"department\":\"FIRE\",\"priority\":\"CRITICAL\",\"description\":\"x\"}\<newline>```'')
      = Inr (PDict [(py ''department'', PStr (py ''FIRE'')),
                    (py ''priority'', PStr (py ''CRITICAL'')),
                    (py ''description'', PStr (py ''x'')),
                    (py ''timestamp'', PStr (py ''2024-05-01T10:00:00'')),
                    (py ''status'', PStr (py ''PENDING''))])
   \<and> py ''DISASTER RELIEF'' \<in> set valid_departments
   \<and> py ''LOW'' \<in> set valid_priorities
   \<and> validate_and_enhance_result (py ''2024-05-01T10:00:00'')
        (PDict [(py ''priority'', PStr (py ''LOW'')),
                (py ''department'', PStr (py ''DISASTER RELIEF''))])
      = Inr (PDict [(py ''priority'', PStr (py ''LOW'')),
                    (py ''department'', PStr (py ''DISASTER RELIEF'')),
                    (py ''description'', PStr (py ''UNKNOWN'')),
                    (py ''timestamp'', PStr (py ''2024-05-01T10:00:00'')),
                    (py ''status'', PStr (py ''PENDING''))])"
proof -
  have 1: "json_loads (py ''\<newline>{\"department\":\"FIRE\",\"priority\":\"CRITICAL\",\"description\":\"x\"}\<newline>'')
      = Inr (PDict [(py ''department'', PStr (py ''FIRE'')),
                    (py ''priority'', PStr (py ''CRITICAL'')),
                    (py ''description'', PStr (py ''x''))])"
    by (simp add: decode_eval)
  have 2: "py ''DISASTER RELIEF'' \<in> set valid_departments"
    by (simp add: valid_departments_eq)
  have 3: "py ''LOW'' \<in> set valid_priorities"
    by (simp add: valid_priorities_eq)
  have 4: "validate_and_enhance_result (py ''2024-05-01T10:00:00'')
        (PDict [(py ''priority'', PStr (py ''LOW'')),
                (py ''department'', PStr (py ''DISASTER RELIEF''))])
      = Inr (PDict [(py ''priority'', PStr (py ''LOW'')),
                    (py ''department'', PStr (py ''DISASTER RELIEF'')),
                    (py ''description'', PStr (py ''UNKNOWN'')),
                    (py ''timestamp'', PStr (py ''2024-05-01T10:00:00'')),
                    (py ''status'', PStr (py ''PENDING''))])"
    by (simp add: validate_eval py_def)
  show ?thesis
    using fenced_json_is_parsed [of json_loads "py ''2024-05-01T10:00:00''"
        "[(py ''priority'', PStr (py ''LOW'')),
          (py ''department'', PStr (py ''DISASTER RELIEF''))]"] 1 2 3 4
    by blast
qed

text \<open>
  C6. When decoding fails with \<^verbatim>\<open>JSONDecodeError\<close> and the reply as received, in lower
  case, holds one of the negative phrases, the result is the same fixed message as
  for the sentinel.
\<close>

theorem negative_phrase_gives_non_issue:
  assumes "decode (strip_fences (strip reply)) = Inl e" and "exc_class_of e = JSONDecodeError"
    and "\<exists>keyword\<in>set negative_keywords. str_contains keyword (lower reply)"
  shows "normalize_response decode now reply = Inr (PStr non_civic_message)"
  using assms by (simp add: normalize_decode_error)

theorem negative_phrase_gives_non_issue_witness:
  "json_loads (strip_fences (strip
      (py ''I cannot identify any municipal issue, this looks like a personal item'')))
     = Inl decode_error
   \<and> exc_class_of decode_error = JSONDecodeError
   \<and> (\<exists>keyword\<in>set negative_keywords. str_contains keyword
         (lower (py ''I cannot identify any municipal issue, this looks like a personal item'')))
   \<and> normalize_response json_loads (py ''2024-05-01T10:00:00'')
       (py ''I cannot identify any municipal issue, this looks like a personal item'')
       = Inr (PStr non_civic_message)"
proof -
  have 1: "json_loads (strip_fences (strip
      (py ''I cannot identify any municipal issue, this looks like a personal item'')))
     = Inl decode_error"
    by (simp add: decode_eval text_eval)
  have 2: "exc_class_of decode_error = JSONDecodeError"
    by (simp add: decode_error_def)
  have 3: "\<exists>keyword\<in>set negative_keywords. str_contains keyword
         (lower (py ''I cannot identify any municipal issue, this looks like a personal item''))"
    by (simp add: text_eval)
  show ?thesis
    using negative_phrase_gives_non_issue [of json_loads
        "py ''I cannot identify any municipal issue, this looks like a personal item''"
        decode_error "py ''2024-05-01T10:00:00''", OF 1 2 3] 1 2 3
    by blast
qed

text \<open>
  C7. Neither \<^verbatim>\<open>detect_municipal_issue\<close> nor \<^verbatim>\<open>analyze_image\<close> lets an exception out:
  each returns a value in every environment. Without a key (unset or empty) the
  result is the string about the missing key and no call has left the process; an
  exception while the detector is built becomes the object with \<^verbatim>\<open>error\<close> and
  \<^verbatim>\<open>message\<close>; an exception while the image is opened or the model is called becomes
  an error string.
\<close>

theorem analysis_never_raises:
  "(\<exists>r evs. detect_municipal_issue env src = (Inr r, evs))
   \<and> (\<exists>r evs. analyze_image env src = (Inr r, evs))
   \<and> (getenv env (py ''GOOGLE_GEMINI_API_KEY'') = None
        \<or> getenv env (py ''GOOGLE_GEMINI_API_KEY'') = Some [] \<longrightarrow>
      detect_municipal_issue env src =
        (Inr (PStr (py ''Error: Google Gemini API key not found.'')), []))
   \<and> (\<forall>k e. getenv env (py ''GOOGLE_GEMINI_API_KEY'') = Some k \<and> k \<noteq> [] \<and>
             configure env k = Inl e \<longrightarrow>
      detect_municipal_issue env src =
        (Inr (PDict [(py ''error'', PStr (str_exc e)),
                     (py ''message'', PStr (py
                        ''Failed to analyze the image. Please check the URL or server logs.''))]),
         [Configure k]))
   \<and> (\<forall>path e. \<not> startswith path (py ''http://'') \<and> \<not> startswith path (py ''https://'') \<and>
             image_open_path env path = Inl e \<longrightarrow>
      analyze_image env (Str path) =
        (Inr (PStr (py ''Error: Unable to analyze image - '' @ str_exc e)), [OpenFile path]))
   \<and> (\<forall>img e. mode img = py ''RGB'' \<and> generate_content env img = Inl e \<longrightarrow>
      analyze_image env (Bitmap img) =
        (Inr (PStr (py ''Error: Unable to analyze image - '' @ str_exc e)), [Generate]))"
proof -
  have 1: "\<exists>r evs. detect_municipal_issue env src = (Inr r, evs)"
    unfolding detect_municipal_issue_def by (rule io_try_returns)
  have 2: "\<exists>r evs. analyze_image env src = (Inr r, evs)"
    unfolding analyze_image_def by (rule io_try_returns)
  have 3: "getenv env (py ''GOOGLE_GEMINI_API_KEY'') = None
        \<or> getenv env (py ''GOOGLE_GEMINI_API_KEY'') = Some [] \<longrightarrow>
      detect_municipal_issue env src =
        (Inr (PStr (py ''Error: Google Gemini API key not found.'')), [])"
    by (auto simp add: detect_municipal_issue_def io_try_def io_return_def)
  have 4: "\<forall>k e. getenv env (py ''GOOGLE_GEMINI_API_KEY'') = Some k \<and> k \<noteq> [] \<and>
             configure env k = Inl e \<longrightarrow>
      detect_municipal_issue env src =
        (Inr (PDict [(py ''error'', PStr (str_exc e)),
                     (py ''message'', PStr (py
                        ''Failed to analyze the image. Please check the URL or server logs.''))]),
         [Configure k])"
    by (auto simp add: detect_municipal_issue_def io_try_def io_return_def io_bind_def io_call_def)
  have 5: "\<forall>path e. \<not> startswith path (py ''http://'') \<and> \<not> startswith path (py ''https://'') \<and>
             image_open_path env path = Inl e \<longrightarrow>
      analyze_image env (Str path) =
        (Inr (PStr (py ''Error: Unable to analyze image - '' @ str_exc e)), [OpenFile path])"
    by (auto simp add: analyze_image_def io_try_def io_return_def io_bind_def io_call_def)
  have 6: "\<forall>img e. mode img = py ''RGB'' \<and> generate_content env img = Inl e \<longrightarrow>
      analyze_image env (Bitmap img) =
        (Inr (PStr (py ''Error: Unable to analyze image - '' @ str_exc e)), [Generate])"
    by (auto simp add: analyze_image_def io_try_def io_return_def io_bind_def io_call_def)
  from 1 2 3 4 5 6 show ?thesis by blast
qed

theorem analysis_never_raises_witness:
  "getenv (example_env None (py ''NON_CIVIC_ISSUE'') (py ''2024-05-01T10:00:00''))
      (py ''GOOGLE_GEMINI_API_KEY'') = None
   \<and> detect_municipal_issue (example_env None (py ''NON_CIVIC_ISSUE'') (py ''2024-05-01T10:00:00''))
       (Str (py ''https://example.org/pothole.jpg''))
     = (Inr (PStr (py ''Error: Google Gemini API key not found.'')), [])
   \<and> detect_municipal_issue (example_env (Some []) (py ''NON_CIVIC_ISSUE'') (py ''2024-05-01T10:00:00''))
       (Str (py ''https://example.org/pothole.jpg''))
     = (Inr (PStr (py ''Error: Google Gemini API key not found.'')), [])
   \<and> detect_municipal_issue
       ((example_env (Some (py ''key'')) (py ''NON_CIVIC_ISSUE'') (py ''2024-05-01T10:00:00''))
          \<lparr>configure := (\<lambda>k. Inl (Raised ValueError (py ''invalid key'')))\<rparr>)
       (Str (py ''https://example.org/pothole.jpg''))
     = (Inr (PDict [(py ''error'', PStr (py ''invalid key'')),
                    (py ''message'', PStr (py
                       ''Failed to analyze the image. Please check the URL or server logs.''))]),
        [Configure (py ''key'')])
   \<and> analyze_image
       ((example_env (Some (py ''key'')) (py ''NON_CIVIC_ISSUE'') (py ''2024-05-01T10:00:00''))
          \<lparr>image_open_path := (\<lambda>path. Inl (Raised OtherException (py ''no such file'')))\<rparr>)
       (Str (py ''pothole.jpg''))
     = (Inr (PStr (py ''Error: Unable to analyze image - no such file'')),
        [OpenFile (py ''pothole.jpg'')])
   \<and> analyze_image
       ((example_env (Some (py ''key'')) (py ''NON_CIVIC_ISSUE'') (py ''2024-05-01T10:00:00''))
          \<lparr>generate_content := (\<lambda>img. Inl (Raised OtherException (py ''quota exceeded'')))\<rparr>)
       (Bitmap \<lparr>mode = py ''RGB'', pixels = []\<rparr>)
     = (Inr (PStr (py ''Error: Unable to analyze image - quota exceeded'')), [Generate])"
proof -
  define e0 where "e0 = example_env None (py ''NON_CIVIC_ISSUE'') (py ''2024-05-01T10:00:00'')"
  define e1 where "e1 = example_env (Some []) (py ''NON_CIVIC_ISSUE'') (py ''2024-05-01T10:00:00'')"
  define e2 where "e2 = (example_env (Some (py ''key'')) (py ''NON_CIVIC_ISSUE'') (py ''2024-05-01T10:00:00''))
          \<lparr>configure := (\<lambda>k. Inl (Raised ValueError (py ''invalid key'')))\<rparr>"
  define e3 where "e3 = (example_env (Some (py ''key'')) (py ''NON_CIVIC_ISSUE'') (py ''2024-05-01T10:00:00''))
          \<lparr>image_open_path := (\<lambda>path. Inl (Raised OtherException (py ''no such file'')))\<rparr>"
  define e4 where "e4 = (example_env (Some (py ''key'')) (py ''NON_CIVIC_ISSUE'') (py ''2024-05-01T10:00:00''))
          \<lparr>generate_content := (\<lambda>img. Inl (Raised OtherException (py ''quota exceeded'')))\<rparr>"
  define url where "url = Str (py ''https://example.org/pothole.jpg'')"
  have k0: "getenv e0 (py ''GOOGLE_GEMINI_API_KEY'') = None"
    by (simp add: e0_def example_env_def)
  have k1: "getenv e1 (py ''GOOGLE_GEMINI_API_KEY'') = Some []"
    by (simp add: e1_def example_env_def)
  have k2: "getenv e2 (py ''GOOGLE_GEMINI_API_KEY'') = Some (py ''key'') \<and> py ''key'' \<noteq> [] \<and>
            configure e2 (py ''key'') = Inl (Raised ValueError (py ''invalid key''))"
    by (simp add: e2_def example_env_def py_def)
  have k3: "\<not> startswith (py ''pothole.jpg'') (py ''http://'') \<and>
            \<not> startswith (py ''pothole.jpg'') (py ''https://'') \<and>
            image_open_path e3 (py ''pothole.jpg'') = Inl (Raised OtherException (py ''no such file''))"
    by (simp add: e3_def example_env_def py_def)
  have k4: "mode \<lparr>mode = py ''RGB'', pixels = []\<rparr> = py ''RGB'' \<and>
            generate_content e4 \<lparr>mode = py ''RGB'', pixels = []\<rparr>
              = Inl (Raised OtherException (py ''quota exceeded''))"
    by (simp add: e4_def example_env_def)
  have r0: "detect_municipal_issue e0 url =
              (Inr (PStr (py ''Error: Google Gemini API key not found.'')), [])"
    using analysis_never_raises [of e0 url] k0 by blast
  have r1: "detect_municipal_issue e1 url =
              (Inr (PStr (py ''Error: Google Gemini API key not found.'')), [])"
    using analysis_never_raises [of e1 url] k1 by blast
  have r2: "detect_municipal_issue e2 url =
              (Inr (PDict [(py ''error'', PStr (str_exc (Raised ValueError (py ''invalid key'')))),
                    (py ''message'', PStr (py
                       ''Failed to analyze the image. Please check the URL or server logs.''))]),
               [Configure (py ''key'')])"
    using analysis_never_raises [of e2 url] k2 by blast
  have r3: "analyze_image e3 (Str (py ''pothole.jpg'')) =
              (Inr (PStr (py ''Error: Unable to analyze image - ''
                      @ str_exc (Raised OtherException (py ''no such file'')))),
               [OpenFile (py ''pothole.jpg'')])"
    using analysis_never_raises [of e3 url] k3 by blast
  have r4: "analyze_image e4 (Bitmap \<lparr>mode = py ''RGB'', pixels = []\<rparr>) =
              (Inr (PStr (py ''Error: Unable to analyze image - ''
                      @ str_exc (Raised OtherException (py ''quota exceeded'')))),
               [Generate])"
    using analysis_never_raises [of e4 url] k4 by blast
  have c3: "py ''Error: Unable to analyze image - ''
              @ str_exc (Raised OtherException (py ''no such file''))
            = py ''Error: Unable to analyze image - no such file''"
    by (simp add: py_def)
  have c4: "py ''Error: Unable to analyze image - ''
              @ str_exc (Raised OtherException (py ''quota exceeded''))
            = py ''Error: Unable to analyze image - quota exceeded''"
    by (simp add: py_def)
  show ?thesis
    using k0 r0 r1 r2 r3 r4
    unfolding c3 c4 e0_def e1_def e2_def e3_def e4_def url_def by simp
qed

text \<open>
  C8. On a decoded object, validation returns an object in which every key other
  than \<^verbatim>\<open>department\<close>, \<^verbatim>\<open>priority\<close>, \<^verbatim>\<open>description\<close>, \<^verbatim>\<open>timestamp\<close> and \<^verbatim>\<open>status\<close> has the
  value the model gave it; \<^verbatim>\<open>timestamp\<close> is the time of the call and \<^verbatim>\<open>status\<close> is
  \<^verbatim>\<open>PENDING\<close>, whatever the model gave; a description that is present, and a
  department and a priority of the two sets, are kept.
\<close>

theorem validation_changes_only_its_own_keys:
  "\<exists>d. validate_and_enhance_result now (PDict d0) = Inr (PDict d) \<and>
        (\<forall>k. k \<notin> {py ''department'', py ''priority'', py ''description'', py ''timestamp'',
                   py ''status''} \<longrightarrow> map_of d k = map_of d0 k) \<and>
        map_of d (py ''timestamp'') = Some (PStr now) \<and>
        map_of d (py ''status'') = Some (PStr (py ''PENDING'')) \<and>
        (\<forall>v. map_of d0 (py ''description'') = Some v \<longrightarrow> map_of d (py ''description'') = Some v) \<and>
        (\<forall>dep\<in>set valid_departments. map_of d0 (py ''department'') = Some (PStr dep) \<longrightarrow>
           map_of d (py ''department'') = Some (PStr dep)) \<and>
        (\<forall>pri\<in>set valid_priorities. map_of d0 (py ''priority'') = Some (PStr pri) \<longrightarrow>
           map_of d (py ''priority'') = Some (PStr pri))"
proof -
  obtain d2 where v: "\<forall>now. validate_and_enhance_result now (PDict d0) =
             Inr (PDict (AList.update (py ''status'') (PStr (py ''PENDING''))
                          (AList.update (py ''timestamp'') (PStr now) d2)))"
    and m: "map_of d2 = (map_of d0)
          (py ''description'' \<mapsto> (case map_of d0 (py ''description'') of
                                    None \<Rightarrow> PStr (py ''UNKNOWN'') | Some v \<Rightarrow> v),
           py ''department'' \<mapsto> (case map_of d0 (py ''department'') of
                                    None \<Rightarrow> PStr (py ''BUILDING'')
                                  | Some v \<Rightarrow> if v \<in> PStr ` set valid_departments then v
                                              else PStr (py ''BUILDING'')),
           py ''priority'' \<mapsto> (case map_of d0 (py ''priority'') of
                                    None \<Rightarrow> PStr (py ''MEDIUM'')
                                  | Some v \<Rightarrow> if v \<in> PStr ` set valid_priorities then v
                                              else PStr (py ''MEDIUM'')))"
    using validate_dict [of d0] by blast
  define d where "d = AList.update (py ''status'') (PStr (py ''PENDING''))
                          (AList.update (py ''timestamp'') (PStr now) d2)"
  have e: "validate_and_enhance_result now (PDict d0) = Inr (PDict d)"
    using v by (simp add: d_def)
  have md: "map_of d = (map_of d2)(py ''timestamp'' \<mapsto> PStr now,
                                   py ''status'' \<mapsto> PStr (py ''PENDING''))"
    by (simp add: d_def update_conv')
  have 1: "\<forall>k. k \<notin> {py ''department'', py ''priority'', py ''description'', py ''timestamp'',
                   py ''status''} \<longrightarrow> map_of d k = map_of d0 k"
    by (simp add: md m)
  have 2: "map_of d (py ''timestamp'') = Some (PStr now)"
    by (simp add: md key_distinct)
  have 3: "map_of d (py ''status'') = Some (PStr (py ''PENDING''))"
    by (simp add: md)
  have 4: "\<forall>v. map_of d0 (py ''description'') = Some v \<longrightarrow> map_of d (py ''description'') = Some v"
    by (simp add: md m key_distinct)
  have 5: "\<forall>dep\<in>set valid_departments. map_of d0 (py ''department'') = Some (PStr dep) \<longrightarrow>
           map_of d (py ''department'') = Some (PStr dep)"
    by (auto simp add: md m key_distinct)
  have 6: "\<forall>pri\<in>set valid_priorities. map_of d0 (py ''priority'') = Some (PStr pri) \<longrightarrow>
           map_of d (py ''priority'') = Some (PStr pri)"
    by (auto simp add: md m key_distinct)
  from e 1 2 3 4 5 6 show ?thesis by blast
qed

theorem validation_changes_only_its_own_keys_witness:
  "validate_and_enhance_result (py ''2024-05-01T10:00:00'')
     (PDict [(py ''department'', PStr (py ''ROADS'')),
             (py ''priority'', PStr (py ''HIGH'')),
             (py ''description'', PStr (py ''pothole'')),
             (py ''confidence_score'', PFloat (py ''0.9'')),
             (py ''timestamp'', PStr (py ''1999-01-01T00:00:00'')),
             (py ''status'', PStr (py ''RESOLVED'')),
             (py ''safety_concern'', PBool True)])
   = Inr (PDict [(py ''department'', PStr (py ''ROADS'')),
             (py ''priority'', PStr (py ''HIGH'')),
             (py ''description'', PStr (py ''pothole'')),
             (py ''confidence_score'', PFloat (py ''0.9'')),
             (py ''timestamp'', PStr (py ''2024-05-01T10:00:00'')),
             (py ''status'', PStr (py ''PENDING'')),
             (py ''safety_concern'', PBool True)])"
proof -
  define d0 where "d0 = [(py ''department'', PStr (py ''ROADS'')),
             (py ''priority'', PStr (py ''HIGH'')),
             (py ''description'', PStr (py ''pothole'')),
             (py ''confidence_score'', PFloat (py ''0.9'')),
             (py ''timestamp'', PStr (py ''1999-01-01T00:00:00'')),
             (py ''status'', PStr (py ''RESOLVED'')),
             (py ''safety_concern'', PBool True)]"
  have "\<exists>d. validate_and_enhance_result (py ''2024-05-01T10:00:00'') (PDict d0) = Inr (PDict d)"
    using validation_changes_only_its_own_keys [of "py ''2024-05-01T10:00:00''" d0] by blast
  moreover have "validate_and_enhance_result (py ''2024-05-01T10:00:00'') (PDict d0) =
    Inr (PDict [(py ''department'', PStr (py ''ROADS'')),
             (py ''priority'', PStr (py ''HIGH'')),
             (py ''description'', PStr (py ''pothole'')),
             (py ''confidence_score'', PFloat (py ''0.9'')),
             (py ''timestamp'', PStr (py ''2024-05-01T10:00:00'')),
             (py ''status'', PStr (py ''PENDING'')),
             (py ''safety_concern'', PBool True)])"
    unfolding d0_def by (simp add: validate_eval py_def)
  ultimately show ?thesis unfolding d0_def by simp
qed

text \<open>
  C9. The result of normalising a reply depends on the time of the call only in the
  entry \<^verbatim>\<open>timestamp\<close>: two calls on the same reply give the same kind of result (the
  message, a report, or the same exception), equal once \<^verbatim>\<open>timestamp\<close> is removed.
\<close>

theorem normalize_deterministic_up_to_timestamp:
  "map_sum id drop_timestamp (normalize_response decode t1 reply) =
   map_sum id drop_timestamp (normalize_response decode t2 reply)"
proof (cases "str_contains (py ''NON_CIVIC_ISSUE'') (strip reply)")
  case True
  then show ?thesis by (simp add: normalize_response_def parse_response_sentinel)
next
  case False
  show ?thesis
  proof (cases "decode (strip_fences (strip reply))")
    case (Inl e)
    then show ?thesis using False
      by (simp add: normalize_response_def parse_response_no_sentinel bind_exc_def
          on_decode_error_def create_fallback_response_raises)
  next
    case (Inr v)
    have p: "parse_response decode t reply = validate_and_enhance_result t v" for t
      using False Inr by (simp add: parse_response_no_sentinel bind_exc_def)
    have n: "normalize_response decode t reply = validate_and_enhance_result t v" for t
      unfolding normalize_response_def p
      using validate_never_decode_error [of t v]
      by (auto split: sum.splits)
    show ?thesis unfolding n by (rule drop_timestamp_validate)
  qed
qed

theorem normalize_deterministic_up_to_timestamp_witness:
  "map_sum id drop_timestamp
     (normalize_response json_loads (py ''2024-05-01T10:00:00'')
        (py ''{\"department\":\"WATER\",\"priority\":\"HIGH\",\"description\":\"burst pipe\"}''))
     = Inr (PDict [(py ''department'', PStr (py ''WATER'')),
                   (py ''priority'', PStr (py ''HIGH'')),
                   (py ''description'', PStr (py ''burst pipe'')),
                   (py ''status'', PStr (py ''PENDING''))])
   \<and> map_sum id drop_timestamp
     (normalize_response json_loads (py ''2031-12-24T23:59:59'')
        (py ''{\"department\":\"WATER\",\"priority\":\"HIGH\",\"description\":\"burst pipe\"}''))
     = Inr (PDict [(py ''department'', PStr (py ''WATER'')),
                   (py ''priority'', PStr (py ''HIGH'')),
                   (py ''description'', PStr (py ''burst pipe'')),
                   (py ''status'', PStr (py ''PENDING''))])"
proof -
  have 1: "map_sum id drop_timestamp
     (normalize_response json_loads (py ''2024-05-01T10:00:00'')
        (py ''{\"department\":\"WATER\",\"priority\":\"HIGH\",\"description\":\"burst pipe\"}''))
     = Inr (PDict [(py ''department'', PStr (py ''WATER'')),
                   (py ''priority'', PStr (py ''HIGH'')),
                   (py ''description'', PStr (py ''burst pipe'')),
                   (py ''status'', PStr (py ''PENDING''))])"
    by (simp add: normalize_response_def parse_response_def non_civic_message_def
        text_eval decode_eval validate_eval)
  show ?thesis
    using normalize_deterministic_up_to_timestamp [of json_loads "py ''2024-05-01T10:00:00''"
       "py ''{\"department\":\"WATER\",\"priority\":\"HIGH\",\"description\":\"burst pipe\"}''"
       "py ''2031-12-24T23:59:59''"] 1
    by simp
qed

text \<open>
  C10. When the reply decodes to a value that is not an object (an array, a string, a
  number, a boolean, \<^verbatim>\<open>null\<close>) and does not hold the sentinel, validation raises
  \<^verbatim>\<open>TypeError\<close>, which leaves the inner \<^verbatim>\<open>try\<close> and is caught by the outer handler of
  \<^verbatim>\<open>analyze_image\<close>: the caller gets an error string, neither a report nor a fallback
  record.
\<close>

theorem non_object_json_gives_error_string:
  assumes "\<not> str_contains (py ''NON_CIVIC_ISSUE'') (strip reply)"
    and "decoder env (strip_fences (strip reply)) = Inr v"
    and "\<forall>d. v \<noteq> PDict d"
    and "mode img = py ''RGB''"
    and "generate_content env img = Inr (Inr reply)"
  shows "\<exists>m. normalize_response (decoder env) (clock env) reply = Inl (Raised TypeError m) \<and>
             analyze_image env (Bitmap img) =
               (Inr (PStr (py ''Error: Unable to analyze image - '' @ m)), [Generate])"
proof -
  obtain m where m: "validate_and_enhance_result (clock env) v = Inl (Raised TypeError m)"
    using validate_not_dict [OF assms(3)] by blast
  have n: "normalize_response (decoder env) (clock env) reply = Inl (Raised TypeError m)"
    using assms(1,2) m
    by (simp add: normalize_response_def parse_response_no_sentinel bind_exc_def)
  show ?thesis
    using analyze_image_bitmap [OF assms(4,5)] n by simp
qed

theorem non_object_json_gives_error_string_witness:
  "\<not> str_contains (py ''NON_CIVIC_ISSUE'') (strip (py ''[1, 2]''))
   \<and> json_loads (strip_fences (strip (py ''[1, 2]''))) = Inr (PList [PInt 1, PInt 2])
   \<and> analyze_image (example_env (Some (py ''key'')) (py ''[1, 2]'') (py ''2024-05-01T10:00:00''))
        (Bitmap \<lparr>mode = py ''RGB'', pixels = []\<rparr>)
      = (Inr (PStr (py ''Error: Unable to analyze image - list indices must be integers or slices, not str'')),
         [Generate])
   \<and> detect_municipal_issue (example_env (Some (py ''key'')) (py ''[1, 2]'') (py ''2024-05-01T10:00:00''))
        (Bitmap \<lparr>mode = py ''RGB'', pixels = []\<rparr>)
      = (Inr (PStr (py ''Error: Unable to analyze image - list indices must be integers or slices, not str'')),
         [Configure (py ''key''), Generate])"
proof -
  define env where "env = example_env (Some (py ''key'')) (py ''[1, 2]'') (py ''2024-05-01T10:00:00'')"
  define img where "img = \<lparr>mode = py ''RGB'', pixels = []\<rparr>"
  have 1: "\<not> str_contains (py ''NON_CIVIC_ISSUE'') (strip (py ''[1, 2]''))"
    by (simp add: text_eval)
  have 2: "decoder env (strip_fences (strip (py ''[1, 2]''))) = Inr (PList [PInt 1, PInt 2])"
    by (simp add: env_def example_env_def text_eval decode_eval)
  have 3: "\<forall>d. PList [PInt 1, PInt 2] \<noteq> PDict d" by simp
  have 4: "mode img = py ''RGB''" by (simp add: img_def)
  have 5: "generate_content env img = Inr (Inr (py ''[1, 2]''))"
    by (simp add: env_def example_env_def)
  obtain m where n: "normalize_response (decoder env) (clock env) (py ''[1, 2]'') = Inl (Raised TypeError m)"
    and a: "analyze_image env (Bitmap img) =
               (Inr (PStr (py ''Error: Unable to analyze image - '' @ m)), [Generate])"
    using non_object_json_gives_error_string [OF 1 2 3 4 5] by blast
  have v: "validate_and_enhance_result (clock env) (PList [PInt 1, PInt 2])
     = Inl (Raised TypeError (py ''list indices must be integers or slices, not str''))"
    by (simp add: validate_eval py_def)
  have "normalize_response (decoder env) (clock env) (py ''[1, 2]'')
     = Inl (Raised TypeError (py ''list indices must be integers or slices, not str''))"
    using 1 2 v by (simp add: normalize_response_def parse_response_no_sentinel bind_exc_def)
  with n have m: "m = py ''list indices must be integers or slices, not str''" by simp
  have a': "analyze_image env (Bitmap img) =
     (Inr (PStr (py ''Error: Unable to analyze image - list indices must be integers or slices, not str'')),
         [Generate])"
    unfolding a m by (simp add: py_def)
  have d: "detect_municipal_issue env (Bitmap img) =
     (Inr (PStr (py ''Error: Unable to analyze image - list indices must be integers or slices, not str'')),
         [Configure (py ''key''), Generate])"
    unfolding detect_municipal_issue_def a'
    by (simp add: env_def example_env_def io_try_def io_bind_def io_call_def io_return_def py_def)
  have j: "json_loads (strip_fences (strip (py ''[1, 2]''))) = Inr (PList [PInt 1, PInt 2])"
    using 2 by (simp add: env_def example_env_def)
  from 1 j a' d show ?thesis unfolding env_def img_def by blast
qed

end
